theory Spec2Isabelle
  imports Complex_Main
begin

section \<open>Values, errors and Python helpers\<close>

text \<open>
  The development embeds \<^verbatim>\<open>pymatgen/io/lobster/lobsterenv.py\<close>. Python floats are
  read as real numbers, so every comparison and tolerance is the exact one. A float that
  may be infinite (a threshold bound) is a \<open>limit\<close>; Python's \<^verbatim>\<open>None\<close> is \<open>None\<close>.
  Every \<^verbatim>\<open>raise\<close> of the source, and every failing builtin it can reach, is a value
  of \<open>error\<close>; a function that can fail returns \<open>error + 'a\<close> with the error on the left.
\<close>

datatype error =
    NoIcohpGiven
      \<comment> \<open>ValueError: Please provide either filename_icohp or obj_icohp\<close>
  | OnlyIcoopIcobi
      \<comment> \<open>ValueError: Algorithm can only work with ICOOPs, ICOBIs\<close>
  | UnexpectedCondition int
      \<comment> \<open>ValueError: Unexpected additional_condition, must be one of 0..6\<close>
  | ValencesNotAssigned
      \<comment> \<open>ValueError: Valences cannot be assigned, additional_conditions 1, 3, 5 and 6 will not work\<close>
  | AllValencesZero
      \<comment> \<open>ValueError: All valences are equal to 0, additional_conditions 1, 3, 5 and 6 will not work\<close>
  | TwoLimitsNeeded
      \<comment> \<open>ValueError: Please give two limits or leave them both at None\<close>
  | NoValences
      \<comment> \<open>ValueError: No valences are provided / No cations and anions defined\<close>
  | TooManyNeighbors
      \<comment> \<open>ValueError: Environment cannot be determined. Number of neighbors is larger than 13.\<close>
  | NotIntegerImage
      \<comment> \<open>ValueError: Weird, differences between one site in a periodic image cell is not integer\<close>
  | EmptySequence
      \<comment> \<open>ValueError of min(), max() and np.max on an empty sequence\<close>
  | InvalidLiteral
      \<comment> \<open>ValueError of int() on a string that is no integer literal\<close>
  | SiteNotFound
      \<comment> \<open>no site of the structure is a periodic image of the given site\<close>
  | StopIteration
      \<comment> \<open>\<^verbatim>\<open>next\<close> on an exhausted generator\<close>
  | IndexError
  | TypeError
  | AttributeError

datatype limit = NegInf | Fin real | PosInf

type_synonym vec3 = "real \<times> real \<times> real"
type_synonym ivec3 = "int \<times> int \<times> int"

text \<open>The subscript \<^verbatim>\<open>xs[i]\<close> of a Python list: positions \<open>0\<close> to \<open>len - 1\<close>, and
  \<open>-len\<close> to \<open>-1\<close> for the same elements read from the end; any other position raises
  IndexError.\<close>

definition py_index :: "'a list \<Rightarrow> int \<Rightarrow> error + 'a" where
  "py_index xs i =
     (if 0 \<le> i \<and> i < int (length xs) then Inr (xs ! nat i)
      else if - int (length xs) \<le> i \<and> i < 0 then Inr (xs ! nat (int (length xs) + i))
      else Inl IndexError)"

definition is_digit :: "char \<Rightarrow> bool" where
  "is_digit c = (c \<in> set ''0123456789'')"

definition digit_value :: "char \<Rightarrow> int" where
  "digit_value c = int (of_char c) - 48"

text \<open>\<^verbatim>\<open>int(s)\<close> on a string of decimal digits; the empty string and any string with
  another character raise ValueError. (The strings converted in this module are the digit
  tail of an atom name and the label of a bond record, which LOBSTER writes as digits.)\<close>

definition py_int :: "string \<Rightarrow> error + int" where
  "py_int s =
     (if s \<noteq> [] \<and> list_all is_digit s
      then Inr (fold (\<lambda>c acc. 10 * acc + digit_value c) s 0)
      else Inl InvalidLiteral)"

text \<open>\<^verbatim>\<open>s.rstrip("0123456789")\<close>\<close>

definition rstrip_digits :: "string \<Rightarrow> string" where
  "rstrip_digits s = rev (dropWhile is_digit (rev s))"

text \<open>\<^verbatim>\<open>np.isclose(a, b, rtol=rtol)\<close> and \<^verbatim>\<open>np.allclose\<close>, for finite numbers, with
  numpy's default absolute tolerance \<open>1e-8\<close>: \<open>|a - b| \<le> atol + rtol * |b|\<close>.\<close>

definition atol_default :: real where
  "atol_default = 1 / 10 ^ 8"

definition rtol_default :: real where
  "rtol_default = 1 / 10 ^ 5"

definition isclose :: "real \<Rightarrow> real \<Rightarrow> real \<Rightarrow> bool" where
  "isclose a b rtol = (\<bar>a - b\<bar> \<le> atol_default + rtol * \<bar>b\<bar>)"

text \<open>\<^verbatim>\<open>np.round\<close> and Python's \<^verbatim>\<open>round\<close>: to the nearest integer, a tie to the
  even one.\<close>

definition np_round :: "real \<Rightarrow> int" where
  "np_round x =
     (let f = \<lfloor>x\<rfloor>; d = x - of_int f
      in if d < 1 / 2 then f else if 1 / 2 < d then f + 1
         else if even f then f else f + 1)"

text \<open>The position of the first element of a list that passes a test: what a
  \<^verbatim>\<open>for i, x in enumerate(xs)\<close> loop finds that stops at its first hit.\<close>

fun first_index :: "('a \<Rightarrow> bool) \<Rightarrow> 'a list \<Rightarrow> nat option" where
  "first_index P [] = None"
| "first_index P (x # xs) = (if P x then Some 0 else map_option Suc (first_index P xs))"

text \<open>\<^verbatim>\<open>str.lower\<close> on ASCII letters.\<close>

definition lower_char :: "char \<Rightarrow> char" where
  "lower_char c =
     (case map_of (zip ''ABCDEFGHIJKLMNOPQRSTUVWXYZ'' ''abcdefghijklmnopqrstuvwxyz'') c of
        Some l \<Rightarrow> l
      | None \<Rightarrow> c)"

definition str_lower :: "string \<Rightarrow> string" where
  "str_lower s = map lower_char s"

text \<open>\<^verbatim>\<open>np.max\<close>, \<^verbatim>\<open>min\<close> and \<^verbatim>\<open>max\<close> of a list; the empty list raises.\<close>

fun max_list :: "real list \<Rightarrow> error + real" where
  "max_list [] = Inl EmptySequence"
| "max_list (x # xs) = Inr (fold max xs x)"

fun min_list :: "real list \<Rightarrow> error + real" where
  "min_list [] = Inl EmptySequence"
| "min_list (x # xs) = Inr (fold min xs x)"


section \<open>Data model\<close>

text \<open>A bond record (\<^verbatim>\<open>IcohpValue\<close>): \<open>bond_length\<close> is the attribute \<^verbatim>\<open>_length\<close>,
  \<open>summed_icohp\<close> the strength summed over the spin channels.\<close>

record icohp_value =
  label :: string
  atom1 :: string
  atom2 :: string
  bond_length :: real
  translation :: ivec3
  summed_icohp :: real

text \<open>A periodic site, as far as this module reads it.\<close>

record site =
  species_string :: string
  frac_coords :: vec3
  coords :: vec3

text \<open>One result of the periodic neighbor search \<^verbatim>\<open>get_sites_in_sphere\<close> with
  \<^verbatim>\<open>include_index=True, include_image=True\<close>: the image site, its distance from the
  centre, the index of its site in the unit cell, and its cell.\<close>

type_synonym neighbor = "site \<times> real \<times> int \<times> ivec3"

text \<open>
  The structure with the operations of \<^verbatim>\<open>pymatgen.core\<close> this module calls. Their code
  is not part of the module, so they are parameters: \<open>get_sites_in_sphere pt r\<close>,
  \<open>is_periodic_image a b\<close> (\<^verbatim>\<open>a.is_periodic_image(b)\<close>), \<open>to_unit_cell\<close> of a site,
  \<open>get_cartesian_coords\<close> of the lattice, and \<open>get_original_site\<close>, the method
  \<^verbatim>\<open>_get_original_site(structure, site)\<close> the class inherits from \<^verbatim>\<open>NearNeighbors\<close>.
\<close>

record Structure =
  sites :: "site list"
  get_sites_in_sphere :: "vec3 \<Rightarrow> real \<Rightarrow> neighbor list"
  is_periodic_image :: "site \<Rightarrow> site \<Rightarrow> bool"
  to_unit_cell :: "site \<Rightarrow> site"
  get_cartesian_coords :: "vec3 \<Rightarrow> vec3"
  get_original_site :: "site \<Rightarrow> error + int"

text \<open>
  The bond-strength collection (\<^verbatim>\<open>IcohpCollection\<close>). \<open>icohplist\<close> is the dictionary
  \<^verbatim>\<open>_icohplist\<close> in insertion order. Its two queries are code outside this module and
  are parameters: \<open>get_icohp_dict_of_site site maxbondlength minsummedicohp maxsummedicohp
  only_bonds_to\<close> returns a dictionary (in iteration order), and \<open>extremum_icohpvalue\<close> is
  the value of \<^verbatim>\<open>extremum_icohpvalue(summed_spin_channels=True)\<close>.
\<close>

record icohpcollection =
  icohplist :: "(string \<times> icohp_value) list"
  list_atom1 :: "string list"
  list_atom2 :: "string list"
  get_icohp_dict_of_site ::
    "int \<Rightarrow> real \<Rightarrow> limit option \<Rightarrow> limit option \<Rightarrow> string list option
      \<Rightarrow> (string \<times> icohp_value) list"
  extremum_icohpvalue :: real


section \<open>Atom names and valences\<close>

definition split_string :: "string \<Rightarrow> string \<times> string" where
  "split_string s =
     (let head = rstrip_digits s; tail = drop (length head) s in (head, tail))"

definition get_atomnumber :: "string \<Rightarrow> error + int" where
  "get_atomnumber atomstring =
     (case py_int (snd (split_string atomstring)) of
        Inl e \<Rightarrow> Inl e
      | Inr n \<Rightarrow> Inr (n - 1))"

text \<open>\<^verbatim>\<open>self.valences[i]\<close>: subscripting \<^verbatim>\<open>None\<close> is a TypeError.\<close>

definition valence_at :: "real list option \<Rightarrow> int \<Rightarrow> error + real" where
  "valence_at valences i =
     (case valences of None \<Rightarrow> Inl TypeError | Some vs \<Rightarrow> py_index vs i)"


section \<open>Condition filter\<close>

text \<open>
  The test of \<^verbatim>\<open>_find_relevant_atoms_additional_condition\<close> and of
  \<^verbatim>\<open>_get_limit_from_extremum\<close> on one bond record, for the condition codes 0 to 6 in the
  order of the source's \<^verbatim>\<open>if\<close>/\<^verbatim>\<open>elif\<close> chain. \<open>val1\<close> and \<open>val2\<close> are read for
  the codes 1, 3, 5 and 6 only.
\<close>

definition anion_cation :: "real \<Rightarrow> real \<Rightarrow> bool" where
  "anion_cation val1 val2 = ((val1 < 0 \<and> 0 < val2) \<or> (val2 < 0 \<and> 0 < val1))"

definition condition_holds :: "int \<Rightarrow> real \<Rightarrow> real \<Rightarrow> icohp_value \<Rightarrow> bool" where
  "condition_holds additional_condition val1 val2 icohp =
     (if additional_condition = 0 then True
      else if additional_condition = 1 then anion_cation val1 val2
      else if additional_condition = 2 then
        rstrip_digits (atom1 icohp) \<noteq> rstrip_digits (atom2 icohp)
      else if additional_condition = 3 then
        anion_cation val1 val2 \<and> rstrip_digits (atom1 icohp) \<noteq> rstrip_digits (atom2 icohp)
      else if additional_condition = 4 then
        rstrip_digits (atom1 icohp) = ''O'' \<or> rstrip_digits (atom2 icohp) = ''O''
      else if additional_condition = 5 then
        (val1 > 0 \<and> val2 > 0) \<or> (val1 < 0 \<and> val2 < 0)
      else if additional_condition = 6 then val1 > 0 \<and> val2 > 0
      else False)"

definition needs_valences :: "int \<Rightarrow> bool" where
  "needs_valences additional_condition = (additional_condition \<in> {1, 3, 5, 6})"

text \<open>The two valences of a record, looked up when the condition needs them (the source
  leaves them \<^verbatim>\<open>None\<close> otherwise; they are not read then).\<close>

definition bond_valences ::
  "real list option \<Rightarrow> int \<Rightarrow> int \<Rightarrow> int \<Rightarrow> error + (real \<times> real)" where
  "bond_valences valences additional_condition atomnr1 atomnr2 =
     (if needs_valences additional_condition then
        (case valence_at valences atomnr1 of
           Inl e \<Rightarrow> Inl e
         | Inr val1 \<Rightarrow>
             (case valence_at valences atomnr2 of
                Inl e \<Rightarrow> Inl e
              | Inr val2 \<Rightarrow> Inr (val1, val2)))
      else Inr (0, 0))"

text \<open>A selected candidate: key, bond length, neighbor atom index, strength (the entries
  the source appends to its four parallel lists).\<close>

type_synonym candidate = "string \<times> real \<times> int \<times> real"

text \<open>One pass of the loop body of \<^verbatim>\<open>_find_relevant_atoms_additional_condition\<close>.\<close>

definition relevant_atom ::
  "real list option \<Rightarrow> int \<Rightarrow> int \<Rightarrow> string \<times> icohp_value \<Rightarrow> error + candidate option" where
  "relevant_atom valences isite additional_condition entry =
     (let key = fst entry; icohp = snd entry in
      case get_atomnumber (atom1 icohp) of
        Inl e \<Rightarrow> Inl e
      | Inr atomnr1 \<Rightarrow>
         (case get_atomnumber (atom2 icohp) of
            Inl e \<Rightarrow> Inl e
          | Inr atomnr2 \<Rightarrow>
             (case bond_valences valences additional_condition atomnr1 atomnr2 of
                Inl e \<Rightarrow> Inl e
              | Inr (val1, val2) \<Rightarrow>
                 Inr (if condition_holds additional_condition val1 val2 icohp then
                        (if atomnr1 = isite then
                           Some (key, bond_length icohp, atomnr2, summed_icohp icohp)
                         else if atomnr2 = isite then
                           Some (key, bond_length icohp, atomnr1, summed_icohp icohp)
                         else None)
                      else None))))"

fun relevant_atoms ::
  "real list option \<Rightarrow> int \<Rightarrow> int \<Rightarrow> (string \<times> icohp_value) list \<Rightarrow> error + candidate list" where
  "relevant_atoms valences isite additional_condition [] = Inr []"
| "relevant_atoms valences isite additional_condition (entry # icohps) =
     (case relevant_atom valences isite additional_condition entry of
        Inl e \<Rightarrow> Inl e
      | Inr sel \<Rightarrow>
         (case relevant_atoms valences isite additional_condition icohps of
            Inl e \<Rightarrow> Inl e
          | Inr rest \<Rightarrow> Inr (case sel of None \<Rightarrow> rest | Some c \<Rightarrow> c # rest)))"

text \<open>The four lists the source returns: keys, lengths, neighbors, strengths.\<close>

definition find_relevant_atoms_additional_condition ::
  "real list option \<Rightarrow> int \<Rightarrow> (string \<times> icohp_value) list \<Rightarrow> int
    \<Rightarrow> error + (string list \<times> real list \<times> int list \<times> real list)" where
  "find_relevant_atoms_additional_condition valences isite icohps additional_condition =
     (case relevant_atoms valences isite additional_condition icohps of
        Inl e \<Rightarrow> Inl e
      | Inr cs \<Rightarrow>
          Inr (map fst cs, map (fst \<circ> snd) cs, map (fst \<circ> snd \<circ> snd) cs,
               map (snd \<circ> snd \<circ> snd) cs))"


section \<open>Threshold selector\<close>

text \<open>\<^verbatim>\<open>_adapt_extremum_to_add_cond\<close>: the minimum of the list for ICOHPs, the maximum for
  ICOOPs and ICOBIs, times the percentage.\<close>

definition adapt_extremum_to_add_cond ::
  "bool \<Rightarrow> bool \<Rightarrow> real list \<Rightarrow> real \<Rightarrow> error + real" where
  "adapt_extremum_to_add_cond are_coops are_cobis list_icohps percentage =
     (case (if \<not> are_coops \<and> \<not> are_cobis then min_list list_icohps else max_list list_icohps) of
        Inl e \<Rightarrow> Inl e
      | Inr extr \<Rightarrow> Inr (extr * percentage))"

text \<open>The test the loops of \<^verbatim>\<open>_get_limit_from_extremum\<close> make on one record. For the
  codes 1, 3, 5 and 6 the atom numbers are parsed and the valences read; for 2 and 4 only
  the element symbols are compared.\<close>

definition adapt_test :: "real list option \<Rightarrow> int \<Rightarrow> icohp_value \<Rightarrow> error + bool" where
  "adapt_test valences additional_condition v =
     (if needs_valences additional_condition then
        (case get_atomnumber (atom1 v) of
           Inl e \<Rightarrow> Inl e
         | Inr atomnr1 \<Rightarrow>
            (case get_atomnumber (atom2 v) of
               Inl e \<Rightarrow> Inl e
             | Inr atomnr2 \<Rightarrow>
                (case bond_valences valences additional_condition atomnr1 atomnr2 of
                   Inl e \<Rightarrow> Inl e
                 | Inr (val1, val2) \<Rightarrow> Inr (condition_holds additional_condition val1 val2 v))))
      else Inr (condition_holds additional_condition 0 0 v))"

text \<open>The list \<^verbatim>\<open>list_icohps\<close> such a loop collects over all records.\<close>

fun adapt_subset :: "real list option \<Rightarrow> int \<Rightarrow> icohp_value list \<Rightarrow> error + real list" where
  "adapt_subset valences additional_condition [] = Inr []"
| "adapt_subset valences additional_condition (v # vs) =
     (case adapt_test valences additional_condition v of
        Inl e \<Rightarrow> Inl e
      | Inr sel \<Rightarrow>
         (case adapt_subset valences additional_condition vs of
            Inl e \<Rightarrow> Inl e
          | Inr rest \<Rightarrow> Inr (if sel then summed_icohp v # rest else rest)))"

text \<open>The variable \<^verbatim>\<open>extremum_based\<close>; it stays \<^verbatim>\<open>None\<close> when the extremum is to be
  adapted and the condition code is none of 0 to 6.\<close>

definition extremum_based ::
  "bool \<Rightarrow> bool \<Rightarrow> real list option \<Rightarrow> icohpcollection \<Rightarrow> real \<Rightarrow> bool \<Rightarrow> int
    \<Rightarrow> error + real option" where
  "extremum_based are_coops are_cobis valences coll percentage adapt additional_condition =
     (if \<not> adapt \<or> additional_condition = 0 then
        Inr (Some (extremum_icohpvalue coll * percentage))
      else if 1 \<le> additional_condition \<and> additional_condition \<le> 6 then
        (case adapt_subset valences additional_condition (map snd (icohplist coll)) of
           Inl e \<Rightarrow> Inl e
         | Inr list_icohps \<Rightarrow>
            (case adapt_extremum_to_add_cond are_coops are_cobis list_icohps percentage of
               Inl e \<Rightarrow> Inl e
             | Inr x \<Rightarrow> Inr (Some x)))
      else Inr None)"

text \<open>\<^verbatim>\<open>_get_limit_from_extremum\<close>. \<^verbatim>\<open>min(None, x)\<close> is a TypeError.\<close>

definition get_limit_from_extremum ::
  "bool \<Rightarrow> bool \<Rightarrow> real option \<Rightarrow> real list option \<Rightarrow> icohpcollection \<Rightarrow> real \<Rightarrow> bool \<Rightarrow> int
    \<Rightarrow> error + (limit option \<times> limit option)" where
  "get_limit_from_extremum are_coops are_cobis noise_cutoff valences coll percentage adapt
      additional_condition =
     (case extremum_based are_coops are_cobis valences coll percentage adapt
             additional_condition of
        Inl e \<Rightarrow> Inl e
      | Inr eb \<Rightarrow>
         (if \<not> are_coops \<and> \<not> are_cobis then
            (case noise_cutoff of
               None \<Rightarrow> Inr (Some NegInf, map_option Fin eb)
             | Some nc \<Rightarrow>
                (case eb of
                   None \<Rightarrow> Inl TypeError
                 | Some x \<Rightarrow> Inr (Some NegInf, Some (Fin (min x (- nc))))))
          else
            (case noise_cutoff of
               None \<Rightarrow> Inr (map_option Fin eb, Some PosInf)
             | Some nc \<Rightarrow>
                (case eb of
                   None \<Rightarrow> Inl TypeError
                 | Some x \<Rightarrow> Inr (Some (Fin (max x nc)), Some PosInf)))))"


section \<open>Neighbor resolver\<close>

text \<open>
  The pool of not yet matched candidates: the source keeps two parallel lists,
  \<^verbatim>\<open>copied_distances_from_ICOHPs\<close> and \<^verbatim>\<open>copied_neighbors_from_ICOHPs\<close>, copied from
  the lists of the condition filter and deleted from at the same position; here they are
  one list of pairs (bond length, neighbor atom index).
\<close>

type_synonym pool = "(real \<times> int) list"

text \<open>The test of the inner loop:
  \<^verbatim>\<open>np.isclose(dist, list_distances[ineigh], rtol=1e-4) and
  copied_neighbors_from_ICOHPs[idist] == index_here2\<close>.\<close>

definition matches :: "real \<Rightarrow> int \<Rightarrow> real \<times> int \<Rightarrow> bool" where
  "matches distance index_here2 entry =
     (isclose (fst entry) distance (1 / 10 ^ 4) \<and> snd entry = index_here2)"

text \<open>The inner loop: the first position \<^verbatim>\<open>idist\<close> of the pool that passes the test.\<close>

definition find_match :: "real \<Rightarrow> int \<Rightarrow> pool \<Rightarrow> nat option" where
  "find_match distance index_here2 pool = first_index (matches distance index_here2) pool"

text \<open>\<^verbatim>\<open>del xs[i]\<close> for a position in range.\<close>

definition delete_at :: "nat \<Rightarrow> 'a list \<Rightarrow> 'a list" where
  "delete_at i xs = take i xs @ drop (Suc i) xs"

text \<open>A search result as the second loop reads it: \<^verbatim>\<open>neighbors_by_distance[ineigh]\<close>,
  \<^verbatim>\<open>list_distances[ineigh]\<close>, \<^verbatim>\<open>index_here_list[ineigh]\<close>, \<^verbatim>\<open>coords[ineigh]\<close>.\<close>

type_synonym prepared = "site \<times> real \<times> int \<times> vec3"

text \<open>The second loop: walk the results, bind the first matching pool entry and delete
  it. The result lists \<^verbatim>\<open>_list_neighsite\<close>, \<^verbatim>\<open>_list_neighisite\<close> and
  \<^verbatim>\<open>_neigh_coords\<close> are one list of triples.\<close>

fun match_neighbors :: "pool \<Rightarrow> prepared list \<Rightarrow> (site \<times> int \<times> vec3) list" where
  "match_neighbors pool [] = []"
| "match_neighbors pool ((neigh, distance, index_here2, coord) # rest) =
     (case find_match distance index_here2 pool of
        None \<Rightarrow> match_neighbors pool rest
      | Some idist \<Rightarrow>
          (neigh, index_here2, coord) # match_neighbors (delete_at idist pool) rest)"

text \<open>The pool when the second loop ends (the source drops it).\<close>

fun remaining_pool :: "pool \<Rightarrow> prepared list \<Rightarrow> pool" where
  "remaining_pool pool [] = pool"
| "remaining_pool pool ((neigh, distance, index_here2, coord) # rest) =
     (case find_match distance index_here2 pool of
        None \<Rightarrow> remaining_pool pool rest
      | Some idist \<Rightarrow> remaining_pool (delete_at idist pool) rest)"

text \<open>The search results that get bound, with their distance (the result list of
  \<open>match_neighbors\<close> before the distance is dropped).\<close>

fun bound_results :: "pool \<Rightarrow> prepared list \<Rightarrow> prepared list" where
  "bound_results pool [] = []"
| "bound_results pool ((neigh, distance, index_here2, coord) # rest) =
     (case find_match distance index_here2 pool of
        None \<Rightarrow> bound_results pool rest
      | Some idist \<Rightarrow>
          (neigh, distance, index_here2, coord) # bound_results (delete_at idist pool) rest)"

text \<open>\<^verbatim>\<open>sorted(neighbors_by_distance_start, key=lambda x: x[1])\<close>: Python's sort is
  stable; \<open>sort_key\<close> is insertion sort, which is stable.\<close>

definition sorted_by_distance :: "neighbor list \<Rightarrow> neighbor list" where
  "sorted_by_distance neighbors_by_distance_start =
     sort_key (\<lambda>x. fst (snd x)) neighbors_by_distance_start"

text \<open>The first loop: for each sorted result the image site, its distance, its index and
  the Cartesian coordinates of its in-cell site shifted by its cell.\<close>

definition prepare :: "Structure \<Rightarrow> neighbor \<Rightarrow> prepared" where
  "prepare S neigh_new =
     (case neigh_new of (neigh, distance, index_here, (c0, c1, c2)) \<Rightarrow>
        (case frac_coords (to_unit_cell S neigh) of (f0, f1, f2) \<Rightarrow>
           (neigh, distance, index_here,
            get_cartesian_coords S (f0 + of_int c0, f1 + of_int c1, f2 + of_int c2))))"

text \<open>What \<^verbatim>\<open>_find_environments\<close> appends for one site to its six lists.\<close>

record environment =
  env_icohps :: "real list"
  env_keys :: "string list"
  env_lengths :: "real list"
  env_neighisite :: "int list"
  env_neighsite :: "site list"
  env_coords :: "vec3 list"

text \<open>The search results the second loop walks, for a site with candidates.\<close>

definition neighbors_by_distance :: "Structure \<Rightarrow> site \<Rightarrow> real \<Rightarrow> prepared list" where
  "neighbors_by_distance S centralsite r =
     map (prepare S) (sorted_by_distance (get_sites_in_sphere S (coords centralsite) r))"

text \<open>The body of the loop over the sites of \<^verbatim>\<open>_find_environments\<close>.\<close>

definition find_environment ::
  "Structure \<Rightarrow> icohpcollection \<Rightarrow> real list option \<Rightarrow> int \<Rightarrow> limit option \<Rightarrow> limit option
    \<Rightarrow> string list option \<Rightarrow> int \<Rightarrow> site \<Rightarrow> error + environment" where
  "find_environment S coll valences additional_condition lowerlimit upperlimit only_bonds_to
      idx site =
     (let icohps = get_icohp_dict_of_site coll idx 6 lowerlimit upperlimit only_bonds_to in
      case find_relevant_atoms_additional_condition valences idx icohps additional_condition of
        Inl e \<Rightarrow> Inl e
      | Inr (keys_from_ICOHPs, lengths_from_ICOHPs, neighbors_from_ICOHPs, selected_ICOHPs) \<Rightarrow>
         (if length neighbors_from_ICOHPs > 0 then
            (case max_list lengths_from_ICOHPs of
               Inl e \<Rightarrow> Inl e
             | Inr m \<Rightarrow>
                (let found = match_neighbors (zip lengths_from_ICOHPs neighbors_from_ICOHPs)
                               (neighbors_by_distance S site (m + 1 / 2))
                 in Inr \<lparr>env_icohps = selected_ICOHPs, env_keys = keys_from_ICOHPs,
                          env_lengths = lengths_from_ICOHPs,
                          env_neighisite = map (fst \<circ> snd) found,
                          env_neighsite = map fst found,
                          env_coords = map (snd \<circ> snd) found\<rparr>))
          else
            Inr \<lparr>env_icohps = [], env_keys = [], env_lengths = [], env_neighisite = [],
                 env_neighsite = [], env_coords = []\<rparr>))"

text \<open>The loop over \<^verbatim>\<open>enumerate(self.structure)\<close>, from index \<open>idx\<close> on.\<close>

fun find_environments_from ::
  "Structure \<Rightarrow> icohpcollection \<Rightarrow> real list option \<Rightarrow> int \<Rightarrow> limit option \<Rightarrow> limit option
    \<Rightarrow> string list option \<Rightarrow> int \<Rightarrow> site list \<Rightarrow> error + environment list" where
  "find_environments_from S coll valences additional_condition lowerlimit upperlimit
      only_bonds_to idx [] = Inr []"
| "find_environments_from S coll valences additional_condition lowerlimit upperlimit
      only_bonds_to idx (site # rest) =
     (case find_environment S coll valences additional_condition lowerlimit upperlimit
             only_bonds_to idx site of
        Inl e \<Rightarrow> Inl e
      | Inr env \<Rightarrow>
         (case find_environments_from S coll valences additional_condition lowerlimit
                 upperlimit only_bonds_to (idx + 1) rest of
            Inl e \<Rightarrow> Inl e
          | Inr envs \<Rightarrow> Inr (env # envs)))"

definition find_environments ::
  "Structure \<Rightarrow> icohpcollection \<Rightarrow> real list option \<Rightarrow> int \<Rightarrow> limit option \<Rightarrow> limit option
    \<Rightarrow> string list option \<Rightarrow> error + environment list" where
  "find_environments S coll valences additional_condition lowerlimit upperlimit only_bonds_to =
     find_environments_from S coll valences additional_condition lowerlimit upperlimit
       only_bonds_to 0 (sites S)"


section \<open>The evaluation pass and the constructor\<close>

text \<open>An edge of the structure graph list \<^verbatim>\<open>sg_list\<close>. \<open>sg_additional\<close> holds the two
  values looked up in the additional bonding lists when \<^verbatim>\<open>add_additional_data_sg\<close> is
  set.\<close>

record sg_entry =
  sg_site :: site
  sg_image :: ivec3
  sg_weight :: nat
  sg_ICOHP :: real
  sg_bond_length :: real
  sg_bond_label :: string
  sg_additional :: "(real \<times> real) option"
  sg_site_index :: nat

text \<open>The charges of \<^verbatim>\<open>CHARGE.lobster\<close>.\<close>

record charge =
  Mulliken :: "real list"
  Loewdin :: "real list"

text \<open>
  The arguments of \<^verbatim>\<open>LobsterNeighbors.__init__\<close>. Files are read, and valences
  estimated, by code outside this module; their results are given with the arguments:
  \<^item> \<open>filename_icohp\<close> is the collection read from the file of that name (\<open>None\<close> when no
    file name is given), \<open>obj_icohp\<close> the collection of the object given;
  \<^item> \<open>filename_charge\<close> holds the charges read from the file of that name;
  \<^item> \<open>bonding_list_1\<close> and \<open>bonding_list_2\<close> are \<^verbatim>\<open>get_icohp_by_label\<close> of the lists
    read from \<^verbatim>\<open>filename_blist_sg1\<close> and \<^verbatim>\<open>filename_blist_sg2\<close>;
  \<^item> \<open>bv_valences\<close> is what \<^verbatim>\<open>BVAnalyzer().get_valences\<close> returns for the structure,
    \<open>None\<close> when it raises ValueError;
  \<^item> \<open>allclose_of_None\<close> is the outcome of \<^verbatim>\<open>np.allclose([], np.zeros_like(None))\<close>,
    which numpy decides; the constructor evaluates it when no valences are known.
  The argument \<^verbatim>\<open>valences\<close> is \<open>valences_arg\<close>, \<^verbatim>\<open>structure\<close> is \<open>the_structure\<close> and
  \<^verbatim>\<open>adapt_extremum_to_add_cond\<close> is \<open>adapt_extremum\<close>.
\<close>

record init_args =
  the_structure :: Structure
  filename_icohp :: "icohpcollection option"
  obj_icohp :: "icohpcollection option"
  are_coops :: bool
  are_cobis :: bool
  valences_arg :: "real list option"
  limits :: "(limit option \<times> limit option) option"
  additional_condition :: int
  only_bonds_to :: "string list option"
  perc_strength_icohp :: real
  noise_cutoff :: "real option"
  valences_from_charges :: bool
  filename_charge :: "charge option"
  obj_charge :: "charge option"
  which_charge :: string
  adapt_extremum :: bool
  add_additional_data_sg :: bool
  bonding_list_1 :: "string \<Rightarrow> error + real"
  bonding_list_2 :: "string \<Rightarrow> error + real"
  id_blist_sg1 :: string
  id_blist_sg2 :: string
  bv_valences :: "real list option"
  allclose_of_None :: "error + bool"

text \<open>The object: the arguments it stores unchanged, and the attributes it computes.\<close>

record LobsterNeighbors =
  args :: init_args
  Icohpcollection :: icohpcollection
  valences :: "real list option"
  lowerlimit :: "limit option"
  upperlimit :: "limit option"
  list_icohps :: "real list list"
  list_lengths :: "real list list"
  list_keys :: "string list list"
  list_neighsite :: "site list list"
  list_neighisite :: "int list list"
  list_coords :: "vec3 list list"
  sg_list :: "sg_entry list list"

text \<open>\<^verbatim>\<open>next(isite for isite, site in enumerate(self.structure)
  if neighbor.is_periodic_image(site))\<close>\<close>

definition next_periodic_image :: "Structure \<Rightarrow> site \<Rightarrow> error + nat" where
  "next_periodic_image S neighbor =
     (case first_index (is_periodic_image S neighbor) (sites S) of
        None \<Rightarrow> Inl StopIteration
      | Some isite \<Rightarrow> Inr isite)"

text \<open>\<^verbatim>\<open>tuple(int(round(i)) for i in (a - b))\<close> for two fractional coordinates.\<close>

definition rounded_difference :: "vec3 \<Rightarrow> vec3 \<Rightarrow> ivec3" where
  "rounded_difference a b =
     (case a of (a0, a1, a2) \<Rightarrow> case b of (b0, b1, b2) \<Rightarrow>
        (np_round (a0 - b0), np_round (a1 - b1), np_round (a2 - b2)))"

text \<open>One dictionary of \<^verbatim>\<open>sg_list\<close>: the edge to neighbor number \<open>ineighbor\<close> of site
  number \<open>ineighbors\<close>.\<close>

definition sg_edge ::
  "init_args \<Rightarrow> real list list \<Rightarrow> real list list \<Rightarrow> string list list \<Rightarrow> nat \<Rightarrow> nat \<Rightarrow> site
    \<Rightarrow> error + sg_entry" where
  "sg_edge a l_icohps l_lengths l_keys ineighbors ineighbor neighbor =
     (let S = the_structure a in
      case next_periodic_image S neighbor of
        Inl e \<Rightarrow> Inl e
      | Inr isite \<Rightarrow>
      (case py_index l_icohps (int ineighbors) of Inl e \<Rightarrow> Inl e | Inr icohps \<Rightarrow>
      (case py_index icohps (int ineighbor) of Inl e \<Rightarrow> Inl e | Inr icohp \<Rightarrow>
      (case py_index l_lengths (int ineighbors) of Inl e \<Rightarrow> Inl e | Inr lengths \<Rightarrow>
      (case py_index lengths (int ineighbor) of Inl e \<Rightarrow> Inl e | Inr len \<Rightarrow>
      (case py_index l_keys (int ineighbors) of Inl e \<Rightarrow> Inl e | Inr keys \<Rightarrow>
      (case py_index keys (int ineighbor) of Inl e \<Rightarrow> Inl e | Inr key \<Rightarrow>
      (case (if add_additional_data_sg a then
               (case bonding_list_1 a key of
                  Inl e \<Rightarrow> Inl e
                | Inr v1 \<Rightarrow>
                   (case bonding_list_2 a key of
                      Inl e \<Rightarrow> Inl e
                    | Inr v2 \<Rightarrow> Inr (Some (v1, v2))))
             else Inr None) of
         Inl e \<Rightarrow> Inl e
       | Inr additional \<Rightarrow>
          Inr \<lparr>sg_site = neighbor,
               sg_image = rounded_difference (frac_coords neighbor)
                            (frac_coords (sites S ! isite)),
               sg_weight = 1, sg_ICOHP = icohp, sg_bond_length = len, sg_bond_label = key,
               sg_additional = additional, sg_site_index = isite\<rparr>))))))))"

text \<open>The inner and the outer list comprehension of \<^verbatim>\<open>sg_list\<close>.\<close>

fun sg_edges ::
  "init_args \<Rightarrow> real list list \<Rightarrow> real list list \<Rightarrow> string list list \<Rightarrow> nat \<Rightarrow> nat \<Rightarrow> site list
    \<Rightarrow> error + sg_entry list" where
  "sg_edges a l_icohps l_lengths l_keys ineighbors ineighbor [] = Inr []"
| "sg_edges a l_icohps l_lengths l_keys ineighbors ineighbor (neighbor # neighbors) =
     (case sg_edge a l_icohps l_lengths l_keys ineighbors ineighbor neighbor of
        Inl e \<Rightarrow> Inl e
      | Inr x \<Rightarrow>
         (case sg_edges a l_icohps l_lengths l_keys ineighbors (Suc ineighbor) neighbors of
            Inl e \<Rightarrow> Inl e
          | Inr xs \<Rightarrow> Inr (x # xs)))"

fun sg_lists ::
  "init_args \<Rightarrow> real list list \<Rightarrow> real list list \<Rightarrow> string list list \<Rightarrow> nat \<Rightarrow> site list list
    \<Rightarrow> error + sg_entry list list" where
  "sg_lists a l_icohps l_lengths l_keys ineighbors [] = Inr []"
| "sg_lists a l_icohps l_lengths l_keys ineighbors (neighbors # rest) =
     (case sg_edges a l_icohps l_lengths l_keys ineighbors 0 neighbors of
        Inl e \<Rightarrow> Inl e
      | Inr xs \<Rightarrow>
         (case sg_lists a l_icohps l_lengths l_keys (Suc ineighbors) rest of
            Inl e \<Rightarrow> Inl e
          | Inr xss \<Rightarrow> Inr (xs # xss)))"

text \<open>The limits \<^verbatim>\<open>_evaluate_ce\<close> works with: computed when both are \<^verbatim>\<open>None\<close>, an error
  when one is.\<close>

definition evaluation_limits ::
  "LobsterNeighbors \<Rightarrow> limit option \<Rightarrow> limit option \<Rightarrow> int \<Rightarrow> real \<Rightarrow> bool
    \<Rightarrow> error + (limit option \<times> limit option)" where
  "evaluation_limits self lower upper add_cond perc adapt =
     (if lower = None \<and> upper = None then
        get_limit_from_extremum (are_coops (args self)) (are_cobis (args self))
          (noise_cutoff (args self)) (valences self) (Icohpcollection self) perc adapt add_cond
      else if upper = None \<or> lower = None then Inl TwoLimitsNeeded
      else Inr (lower, upper))"

text \<open>\<^verbatim>\<open>_evaluate_ce\<close>: returns the object with the result lists set.\<close>

definition evaluate_ce ::
  "LobsterNeighbors \<Rightarrow> limit option \<Rightarrow> limit option \<Rightarrow> string list option \<Rightarrow> int \<Rightarrow> real
    \<Rightarrow> bool \<Rightarrow> error + LobsterNeighbors" where
  "evaluate_ce self lower upper bonds_to add_cond perc adapt =
     (case evaluation_limits self lower upper add_cond perc adapt of
        Inl e \<Rightarrow> Inl e
      | Inr (lo, up) \<Rightarrow>
         (case find_environments (the_structure (args self)) (Icohpcollection self)
                 (valences self) add_cond lo up bonds_to of
            Inl e \<Rightarrow> Inl e
          | Inr envs \<Rightarrow>
             (case sg_lists (args self) (map env_icohps envs) (map env_lengths envs)
                     (map env_keys envs) 0 (map env_neighsite envs) of
                Inl e \<Rightarrow> Inl e
              | Inr sg \<Rightarrow>
                 Inr (self\<lparr>list_icohps := map env_icohps envs,
                           list_lengths := map env_lengths envs,
                           list_keys := map env_keys envs,
                           list_neighsite := map env_neighsite envs,
                           list_neighisite := map env_neighisite envs,
                           list_coords := map env_coords envs,
                           sg_list := sg\<rparr>))))"

text \<open>The valences the constructor settles on. An unknown \<^verbatim>\<open>which_charge\<close> leaves the
  attribute unset, and reading it next raises AttributeError.\<close>

definition charge_valences :: "charge \<Rightarrow> string \<Rightarrow> error + real list option" where
  "charge_valences chg which =
     (if which = ''Mulliken'' then Inr (Some (Mulliken chg))
      else if which = ''Loewdin'' then Inr (Some (Loewdin chg))
      else Inl AttributeError)"

definition init_valences :: "init_args \<Rightarrow> error + real list option" where
  "init_valences a =
     (case valences_arg a of
        Some vs \<Rightarrow> Inr (Some vs)
      | None \<Rightarrow>
         (if valences_from_charges a \<and> filename_charge a \<noteq> None then
            (case filename_charge a of
               Some chg \<Rightarrow> charge_valences chg (which_charge a)
             | None \<Rightarrow> Inl AttributeError)
          else if valences_from_charges a \<and> obj_charge a \<noteq> None then
            (case obj_charge a of
               Some chg \<Rightarrow> charge_valences chg (which_charge a)
             | None \<Rightarrow> Inl AttributeError)
          else
            (case bv_valences a of
               Some vs \<Rightarrow> Inr (Some vs)
             | None \<Rightarrow>
                 if additional_condition a \<in> {1, 3, 5, 6} then Inl ValencesNotAssigned
                 else Inr None)))"

text \<open>\<^verbatim>\<open>np.allclose(self.valences or [], np.zeros_like(self.valences))\<close>: every valence
  is within \<open>atol + rtol * 0\<close> of zero.\<close>

definition valences_allclose_zero :: "init_args \<Rightarrow> real list option \<Rightarrow> error + bool" where
  "valences_allclose_zero a vals =
     (case vals of
        None \<Rightarrow> allclose_of_None a
      | Some vs \<Rightarrow> Inr (list_all (\<lambda>v. isclose v 0 rtol_default) vs))"

text \<open>\<^verbatim>\<open>LobsterNeighbors.__init__\<close>\<close>

definition init :: "init_args \<Rightarrow> error + LobsterNeighbors" where
  "init a =
     (case (case filename_icohp a of
              Some c \<Rightarrow> Inr c
            | None \<Rightarrow> (case obj_icohp a of Some c \<Rightarrow> Inr c | None \<Rightarrow> Inl NoIcohpGiven)) of
        Inl e \<Rightarrow> Inl e
      | Inr coll \<Rightarrow>
         if str_lower (id_blist_sg1 a) \<notin> {''icoop'', ''icobi''}
            \<or> str_lower (id_blist_sg2 a) \<notin> {''icoop'', ''icobi''}
         then Inl OnlyIcoopIcobi
         else if \<not> (0 \<le> additional_condition a \<and> additional_condition a < 7)
         then Inl (UnexpectedCondition (additional_condition a))
         else
           (case init_valences a of
              Inl e \<Rightarrow> Inl e
            | Inr vals \<Rightarrow>
               (case valences_allclose_zero a vals of
                  Inl e \<Rightarrow> Inl e
                | Inr all_zero \<Rightarrow>
                   if all_zero \<and> additional_condition a \<in> {1, 3, 5, 6} then Inl AllValencesZero
                   else
                     (let lims = (case limits a of None \<Rightarrow> (None, None) | Some l \<Rightarrow> l);
                          self = \<lparr>args = a, Icohpcollection = coll, valences = vals,
                                  lowerlimit = fst lims, upperlimit = snd lims,
                                  list_icohps = [], list_lengths = [], list_keys = [],
                                  list_neighsite = [], list_neighisite = [], list_coords = [],
                                  sg_list = []\<rparr>
                      in evaluate_ce self (lowerlimit self) (upperlimit self) (only_bonds_to a)
                           (additional_condition a) (perc_strength_icohp a)
                           (adapt_extremum a)))))"


section \<open>Aggregation of bond strengths\<close>

text \<open>A loop whose body can raise: the first error ends it.\<close>

fun fold_err :: "('a \<Rightarrow> 'b \<Rightarrow> error + 'b) \<Rightarrow> 'a list \<Rightarrow> 'b \<Rightarrow> error + 'b" where
  "fold_err f [] acc = Inr acc"
| "fold_err f (x # xs) acc =
     (case f x acc of Inl e \<Rightarrow> Inl e | Inr acc' \<Rightarrow> fold_err f xs acc')"

text \<open>The named tuple \<^verbatim>\<open>ICOHPNeighborsInfo\<close>; \<open>icohps\<close> is its field
  \<^verbatim>\<open>list_icohps\<close>, and a two-element list of atom names is a pair.\<close>

record ICOHPNeighborsInfo =
  total_icohp :: real
  icohps :: "real list"
  n_bonds :: nat
  labels :: "string list"
  atoms :: "(string \<times> string) list"
  central_isites :: "int list option"

















section \<open>Output assembly\<close>

text \<open>What the five parallel lists handed to \<^verbatim>\<open>from_Lobster\<close> hold for one site:
  \<^verbatim>\<open>list_ce_symbol\<close>, \<^verbatim>\<open>list_csm\<close>, \<^verbatim>\<open>list_permutation\<close>, \<^verbatim>\<open>list_neighisite\<close>
  and \<^verbatim>\<open>list_neighsite\<close> (the callers in this module append to all five together).\<close>

record site_input =
  in_ce_symbol :: "string option"
  in_csm :: "real option"
  in_permutation :: "nat list option"
  in_neighisite :: "int list"
  in_neighsite :: "site list"

record ce_dict =
  ce_symbol :: "string option"
  ce_fraction :: real
  csm :: "real option"
  permutation :: "nat list option"

record nb_site =
  nb_site :: site
  nb_index :: int
  image_cell :: ivec3

text \<open>The environments object: each coordination environment and each neighbors set
  stands for the one-element list the source wraps it in; a neighbors set is the site
  index and the indices into \<open>all_nbs_sites\<close> it is built from.\<close>

record LobsterLightStructureEnvironments =
  coordination_environments :: "ce_dict list"
  all_nbs_sites :: "nb_site list"
  neighbors_sets :: "(nat \<times> nat list) list"
  lse_valences :: "real list option"

text \<open>The image cell of a neighbor in \<^verbatim>\<open>from_Lobster\<close>: the rounded difference of the
  fractional coordinates, an error unless \<^verbatim>\<open>np.allclose(diff, round_diff)\<close>.\<close>

definition nb_image_cell :: "vec3 \<Rightarrow> vec3 \<Rightarrow> error + ivec3" where
  "nb_image_cell a b =
     (case a of (a0, a1, a2) \<Rightarrow> case b of (b0, b1, b2) \<Rightarrow>
      let d0 = a0 - b0; d1 = a1 - b1; d2 = a2 - b2;
          r0 = np_round d0; r1 = np_round d1; r2 = np_round d2
      in if isclose d0 (of_int r0) rtol_default \<and> isclose d1 (of_int r1) rtol_default
            \<and> isclose d2 (of_int r2) rtol_default
         then Inr (r0, r1, r2) else Inl NotIntegerImage)"

text \<open>The loop over the neighbors of one site in \<^verbatim>\<open>from_Lobster\<close>; the state is
  \<^verbatim>\<open>all_nbs_sites\<close>, \<^verbatim>\<open>all_nbs_sites_indices_here\<close> and \<^verbatim>\<open>counter\<close>.\<close>

fun lse_neighbors ::
  "Structure \<Rightarrow> int list \<Rightarrow> nat \<Rightarrow> site list \<Rightarrow> nb_site list \<times> nat list \<times> nat
    \<Rightarrow> error + (nb_site list \<times> nat list \<times> nat)" where
  "lse_neighbors S neighisite idx_neigh_site [] st = Inr st"
| "lse_neighbors S neighisite idx_neigh_site (neigh_site # rest) st =
     (case st of (all_nbs, here, counter) \<Rightarrow>
      case py_index neighisite (int idx_neigh_site) of
        Inl e \<Rightarrow> Inl e
      | Inr i \<Rightarrow>
         (case py_index (sites S) i of
            Inl e \<Rightarrow> Inl e
          | Inr s0 \<Rightarrow>
             (case nb_image_cell (frac_coords neigh_site) (frac_coords s0) of
                Inl e \<Rightarrow> Inl e
              | Inr cell \<Rightarrow>
                  lse_neighbors S neighisite (Suc idx_neigh_site) rest
                    (all_nbs @ [\<lparr>nb_site = neigh_site, nb_index = i, image_cell = cell\<rparr>],
                     here @ [counter], counter + 1))))"

text \<open>The loop over \<^verbatim>\<open>range(len(structure))\<close> of \<^verbatim>\<open>from_Lobster\<close>; the state is the
  lists built so far and the counter.\<close>

definition lse_site ::
  "Structure \<Rightarrow> site_input list \<Rightarrow> nat
    \<Rightarrow> ce_dict list \<times> nb_site list \<times> (nat \<times> nat list) list \<times> nat
    \<Rightarrow> error + (ce_dict list \<times> nb_site list \<times> (nat \<times> nat list) list \<times> nat)" where
  "lse_site S inputs isite st =
     (case st of (ces, all_nbs, nb_sets, counter) \<Rightarrow>
      case py_index inputs (int isite) of
        Inl e \<Rightarrow> Inl e
      | Inr inp \<Rightarrow>
         (case lse_neighbors S (in_neighisite inp) 0 (in_neighsite inp) (all_nbs, [], counter) of
            Inl e \<Rightarrow> Inl e
          | Inr (all_nbs', here, counter') \<Rightarrow>
              Inr (ces @ [\<lparr>ce_symbol = in_ce_symbol inp, ce_fraction = 1, csm = in_csm inp,
                            permutation = in_permutation inp\<rparr>],
                   all_nbs', nb_sets @ [(isite, here)], counter')))"

definition from_Lobster ::
  "site_input list \<Rightarrow> Structure \<Rightarrow> real list option
    \<Rightarrow> error + LobsterLightStructureEnvironments" where
  "from_Lobster inputs S vals =
     (case fold_err (lse_site S inputs) [0..<length (sites S)] ([], [], [], 0) of
        Inl e \<Rightarrow> Inl e
      | Inr (ces, all_nbs, nb_sets, counter) \<Rightarrow>
          Inr \<lparr>coordination_environments = ces, all_nbs_sites = all_nbs,
               neighbors_sets = nb_sets, lse_valences = vals\<rparr>)"

text \<open>
  The first loop of \<^verbatim>\<open>get_light_structure_environment\<close>. The geometry finder is code
  outside this module: \<open>lgf ival coords\<close> is the symbol, the measure and the permutation
  of the environment with the least \<^verbatim>\<open>csm_wcs_ctwcc\<close> it finds for site \<open>ival\<close>.
\<close>

fun ce_lists ::
  "(nat \<Rightarrow> vec3 list \<Rightarrow> string \<times> real \<times> nat list) \<Rightarrow> nat \<Rightarrow> vec3 list list
    \<Rightarrow> error + (string option \<times> real option \<times> nat list option) list" where
  "ce_lists lgf ival [] = Inr []"
| "ce_lists lgf ival (neigh_coords # rest) =
     (if length neigh_coords > 13 then Inl TooManyNeighbors
      else
        (case ce_lists lgf (Suc ival) rest of
           Inl e \<Rightarrow> Inl e
         | Inr xs \<Rightarrow>
             Inr ((if neigh_coords \<noteq> [] then
                     (case lgf ival neigh_coords of (symb, c, perm) \<Rightarrow> (Some symb, Some c, Some perm))
                   else (None, None, None)) # xs)))"

text \<open>The entry of the five lists for a site that is kept, and for one that is left
  out.\<close>

definition kept_input ::
  "LobsterNeighbors \<Rightarrow> (string option \<times> real option \<times> nat list option) list \<Rightarrow> int
    \<Rightarrow> error + site_input" where
  "kept_input self ces i =
     (case py_index ces i of
        Inl e \<Rightarrow> Inl e
      | Inr (symb, c, perm) \<Rightarrow>
         (case py_index (list_neighisite self) i of
            Inl e \<Rightarrow> Inl e
          | Inr neighisite \<Rightarrow>
             (case py_index (list_neighsite self) i of
                Inl e \<Rightarrow> Inl e
              | Inr neighsite \<Rightarrow>
                  Inr \<lparr>in_ce_symbol = symb, in_csm = c, in_permutation = perm,
                       in_neighisite = neighisite, in_neighsite = neighsite\<rparr>)))"

definition left_out_input :: site_input where
  "left_out_input =
     \<lparr>in_ce_symbol = None, in_csm = None, in_permutation = Some [], in_neighisite = [],
      in_neighsite = []\<rparr>"

text \<open>The loop \<^verbatim>\<open>for ival, val in enumerate(self.valences)\<close> of the branch
  \<^verbatim>\<open>only_cation_environments\<close>.\<close>

fun cation_inputs ::
  "LobsterNeighbors \<Rightarrow> (string option \<times> real option \<times> nat list option) list \<Rightarrow> nat
    \<Rightarrow> real list \<Rightarrow> error + site_input list" where
  "cation_inputs self ces ival [] = Inr []"
| "cation_inputs self ces ival (val # rest) =
     (case (if val \<ge> 0 then kept_input self ces (int ival) else Inr left_out_input) of
        Inl e \<Rightarrow> Inl e
      | Inr inp \<Rightarrow>
         (case cation_inputs self ces (Suc ival) rest of
            Inl e \<Rightarrow> Inl e
          | Inr inps \<Rightarrow> Inr (inp # inps)))"

text \<open>The loop \<^verbatim>\<open>for isite, _site in enumerate(self.structure)\<close> of the branch
  \<^verbatim>\<open>only_indices\<close>, and the five lists as they are when nothing is left out.\<close>

fun index_inputs ::
  "LobsterNeighbors \<Rightarrow> (string option \<times> real option \<times> nat list option) list \<Rightarrow> int list
    \<Rightarrow> nat list \<Rightarrow> error + site_input list" where
  "index_inputs self ces only_indices [] = Inr []"
| "index_inputs self ces only_indices (isite # rest) =
     (case (if int isite \<in> set only_indices then kept_input self ces (int isite)
            else Inr left_out_input) of
        Inl e \<Rightarrow> Inl e
      | Inr inp \<Rightarrow>
         (case index_inputs self ces only_indices rest of
            Inl e \<Rightarrow> Inl e
          | Inr inps \<Rightarrow> Inr (inp # inps)))"

definition all_inputs ::
  "LobsterNeighbors \<Rightarrow> (string option \<times> real option \<times> nat list option) list \<Rightarrow> site_input list"
  where
  "all_inputs self ces =
     map (\<lambda>i. \<lparr>in_ce_symbol = fst (ces ! i), in_csm = fst (snd (ces ! i)),
                in_permutation = snd (snd (ces ! i)),
                in_neighisite = list_neighisite self ! i, in_neighsite = list_neighsite self ! i\<rparr>)
       [0..<min (length ces) (min (length (list_neighisite self)) (length (list_neighsite self)))]"

text \<open>The five lists \<^verbatim>\<open>get_light_structure_environment\<close> hands to \<^verbatim>\<open>from_Lobster\<close>.
  Iterating over \<^verbatim>\<open>self.valences\<close> when it is \<^verbatim>\<open>None\<close> is a TypeError.\<close>

definition environment_inputs ::
  "LobsterNeighbors \<Rightarrow> (nat \<Rightarrow> vec3 list \<Rightarrow> string \<times> real \<times> nat list) \<Rightarrow> bool
    \<Rightarrow> int list option \<Rightarrow> error + site_input list" where
  "environment_inputs self lgf only_cation_environments only_indices =
     (case ce_lists lgf 0 (list_coords self) of
        Inl e \<Rightarrow> Inl e
      | Inr ces \<Rightarrow>
         (case only_indices of
            None \<Rightarrow>
              if \<not> only_cation_environments then Inr (all_inputs self ces)
              else
                (case valences self of
                   None \<Rightarrow> Inl TypeError
                 | Some vs \<Rightarrow> cation_inputs self ces 0 vs)
          | Some ix \<Rightarrow>
              index_inputs self ces ix [0..<length (sites (the_structure (args self)))]))"

definition get_light_structure_environment ::
  "LobsterNeighbors \<Rightarrow> (nat \<Rightarrow> vec3 list \<Rightarrow> string \<times> real \<times> nat list) \<Rightarrow> bool
    \<Rightarrow> int list option \<Rightarrow> error + LobsterLightStructureEnvironments" where
  "get_light_structure_environment self lgf only_cation_environments only_indices =
     (case environment_inputs self lgf only_cation_environments only_indices of
        Inl e \<Rightarrow> Inl e
      | Inr inputs \<Rightarrow> from_Lobster inputs (the_structure (args self)) (valences self))"


section \<open>Notions used in the statements\<close>

text \<open>The pool the resolver starts from: bond length and neighbor atom index of each
  selected candidate.\<close>

definition candidate_pool :: "candidate list \<Rightarrow> pool" where
  "candidate_pool cs = map (\<lambda>c. (fst (snd c), fst (snd (snd c)))) cs"

text \<open>The search results the resolver walks for a site with the candidates \<open>cs\<close>: the
  radius is the largest bond length plus one half.\<close>

definition search_radius :: "candidate list \<Rightarrow> real" where
  "search_radius cs = Max (set (map fst (candidate_pool cs))) + 1 / 2"

definition search_results :: "Structure \<Rightarrow> site \<Rightarrow> candidate list \<Rightarrow> prepared list" where
  "search_results S centralsite cs = neighbors_by_distance S centralsite (search_radius cs)"

text \<open>The three lists the resolver builds for a site, side by side.\<close>

definition resolved :: "environment \<Rightarrow> (site \<times> int \<times> vec3) list" where
  "resolved env = zip (env_neighsite env) (zip (env_neighisite env) (env_coords env))"




section \<open>A two-atom example\<close>

text \<open>
  A sodium and a chlorine site and one bond record between them (label 1, atoms Na1 and
  Cl2, strength \<open>-1\<close>). The bond length \<open>len\<close> of the record and the distance \<open>d\<close> at
  which the neighbor search finds the other atom are parameters, so that the bond data and
  the geometry can be made to agree or to disagree.
\<close>

definition ex_Na :: site where
  "ex_Na = \<lparr>species_string = ''Na'', frac_coords = (0, 0, 0), coords = (0, 0, 0)\<rparr>"

definition ex_Cl :: site where
  "ex_Cl = \<lparr>species_string = ''Cl'', frac_coords = (1 / 2, 1 / 2, 1 / 2), coords = (2, 2, 2)\<rparr>"

definition ex_structure :: "real \<Rightarrow> Structure" where
  "ex_structure d =
     \<lparr>sites = [ex_Na, ex_Cl],
      get_sites_in_sphere =
        (\<lambda>pt r. filter (\<lambda>x. fst (snd x) \<le> r)
                  (if pt = coords ex_Na then [(ex_Cl, d, 1, (0, 0, 0)), (ex_Na, 0, 0, (0, 0, 0))]
                   else [(ex_Na, d, 0, (0, 0, 0)), (ex_Cl, 0, 1, (0, 0, 0))])),
      is_periodic_image = (\<lambda>a b. species_string a = species_string b),
      to_unit_cell = (\<lambda>s. s),
      get_cartesian_coords = (\<lambda>f. case f of (x, y, z) \<Rightarrow> (4 * x, 4 * y, 4 * z)),
      get_original_site = (\<lambda>s. if species_string s = ''Na'' then Inr 0 else Inr 1)\<rparr>"

definition ex_icohp :: "real \<Rightarrow> icohp_value" where
  "ex_icohp len =
     \<lparr>label = ''1'', atom1 = ''Na1'', atom2 = ''Cl2'', bond_length = len,
      translation = (0, 0, 0), summed_icohp = - 1\<rparr>"

definition ex_collection :: "real \<Rightarrow> icohpcollection" where
  "ex_collection len =
     \<lparr>icohplist = [(''1'', ex_icohp len)],
      list_atom1 = [''Na1''], list_atom2 = [''Cl2''],
      get_icohp_dict_of_site =
        (\<lambda>site maxbondlength lo up bonds.
           if (site = 0 \<or> site = 1) \<and> len \<le> maxbondlength then [(''1'', ex_icohp len)] else []),
      extremum_icohpvalue = - 1\<rparr>"


text \<open>Arguments for the constructor on the example: ICOHP data given as an object,
  valences \<open>+1\<close> and \<open>-1\<close>, no limits, no condition, the defaults otherwise.\<close>

definition ex_args :: "real \<Rightarrow> real \<Rightarrow> init_args" where
  "ex_args len d =
     \<lparr>the_structure = ex_structure d, filename_icohp = None,
      obj_icohp = Some (ex_collection len), are_coops = False, are_cobis = False,
      valences_arg = Some [1, - 1], limits = None, additional_condition = 0,
      only_bonds_to = None, perc_strength_icohp = 15 / 100, noise_cutoff = Some (1 / 10),
      valences_from_charges = False, filename_charge = None, obj_charge = None,
      which_charge = ''Mulliken'', adapt_extremum = False, add_additional_data_sg = False,
      bonding_list_1 = (\<lambda>key. Inl AttributeError), bonding_list_2 = (\<lambda>key. Inl AttributeError),
      id_blist_sg1 = ''ICOOP'', id_blist_sg2 = ''ICOBI'', bv_valences = None,
      allclose_of_None = Inl TypeError\<rparr>"






text \<open>The object the constructor evaluates for the two-atom example with matching bond
  data and geometry (length and distance 3), and the object it returns.\<close>

definition ex_start :: LobsterNeighbors where
  "ex_start =
     \<lparr>args = ex_args 3 3, Icohpcollection = ex_collection 3, valences = Some [1, - 1],
      lowerlimit = None, upperlimit = None, list_icohps = [], list_lengths = [],
      list_keys = [], list_neighsite = [], list_neighisite = [], list_coords = [],
      sg_list = []\<rparr>"

definition ex_result :: LobsterNeighbors where
  "ex_result =
     \<lparr>args = ex_args 3 3, Icohpcollection = ex_collection 3, valences = Some [1, - 1],
      lowerlimit = None, upperlimit = None,
      list_icohps = [[- 1], [- 1]], list_lengths = [[3], [3]], list_keys = [[''1''], [''1'']],
      list_neighsite = [[ex_Cl], [ex_Na]], list_neighisite = [[1], [0]],
      list_coords = [[(2, 2, 2)], [(0, 0, 0)]],
      sg_list =
        [[\<lparr>sg_site = ex_Cl, sg_image = (0, 0, 0), sg_weight = 1, sg_ICOHP = - 1,
           sg_bond_length = 3, sg_bond_label = ''1'', sg_additional = None, sg_site_index = 1\<rparr>],
         [\<lparr>sg_site = ex_Na, sg_image = (0, 0, 0), sg_weight = 1, sg_ICOHP = - 1,
           sg_bond_length = 3, sg_bond_label = ''1'', sg_additional = None,
           sg_site_index = 0\<rparr>]]\<rparr>"


section \<open>Helper lemmas: lists, the resolver, the example\<close>

lemma first_index_None: "first_index P xs = None \<longleftrightarrow> (\<forall>x\<in>set xs. \<not> P x)"
  by (induction xs) auto

lemma first_index_Some:
  "first_index P xs = Some i \<longleftrightarrow> (i < length xs \<and> P (xs ! i) \<and> (\<forall>j<i. \<not> P (xs ! j)))"
proof (induction xs arbitrary: i)
  case Nil
  then show ?case by simp
next
  case (Cons x xs)
  show ?case
  proof (cases "P x")
    case True
    then show ?thesis by (cases i) auto
  next
    case False
    show ?thesis
    proof (cases i)
      case 0
      with False show ?thesis by auto
    next
      case (Suc k)
      have "(\<forall>j<Suc k. \<not> P ((x # xs) ! j)) \<longleftrightarrow> (\<forall>j<k. \<not> P (xs ! j))"
        using False by (auto simp: less_Suc_eq_0_disj)
      with False Suc Cons.IH [of k] show ?thesis by auto
    qed
  qed
qed

lemma prepare_distance: "fst (snd (prepare S n)) = fst (snd n)"
  by (auto simp: prepare_def split: prod.splits)

lemma sorted_neighbors_by_distance:
  "sorted (map (\<lambda>p. fst (snd p)) (neighbors_by_distance S c r))"
  by (simp add: neighbors_by_distance_def sorted_by_distance_def comp_def prepare_distance)

lemma find_match_None:
  "find_match d idx pool = None \<longleftrightarrow>
     (\<forall>e\<in>set pool. \<not> (isclose (fst e) d (1 / 10 ^ 4) \<and> snd e = idx))"
  by (simp add: find_match_def first_index_None matches_def)

lemma find_match_Some:
  "find_match d idx pool = Some i \<longleftrightarrow>
     (i < length pool \<and> isclose (fst (pool ! i)) d (1 / 10 ^ 4) \<and> snd (pool ! i) = idx
      \<and> (\<forall>j<i. \<not> (isclose (fst (pool ! j)) d (1 / 10 ^ 4) \<and> snd (pool ! j) = idx)))"
  by (simp add: find_match_def first_index_Some matches_def)

lemma length_delete_at: "i < length xs \<Longrightarrow> length (delete_at i xs) = length xs - 1"
  by (simp add: delete_at_def)

lemma set_delete_at: "set (delete_at i xs) \<subseteq> set xs"
  by (auto simp: delete_at_def dest: in_set_takeD in_set_dropD)

lemma resolved_plus_remaining:
  "length (match_neighbors pool rs) + length (remaining_pool pool rs) = length pool"
proof (induction rs arbitrary: pool)
  case Nil
  show ?case by simp
next
  case (Cons r rs)
  obtain neigh d idx coord where r: "r = (neigh, d, idx, coord)"
    by (cases r) auto
  show ?case
  proof (cases "find_match d idx pool")
    case None
    with r Cons.IH [of pool] show ?thesis by simp
  next
    case (Some i)
    then have "i < length pool" by (simp add: find_match_Some)
    with r Some Cons.IH [of "delete_at i pool"] show ?thesis
      by (simp add: length_delete_at)
  qed
qed

lemma match_neighbors_bound:
  "match_neighbors pool rs = map (\<lambda>(neigh, d, idx, coord). (neigh, idx, coord)) (bound_results pool rs)"
proof (induction rs arbitrary: pool)
  case Nil
  show ?case by simp
next
  case (Cons r rs)
  obtain neigh d idx coord where r: "r = (neigh, d, idx, coord)"
    by (cases r) auto
  show ?case
    using Cons.IH r by (simp split: option.splits)
qed

lemma bound_results_sound:
  "x \<in> set (bound_results pool rs) \<Longrightarrow>
     x \<in> set rs \<and> (\<exists>e\<in>set pool. isclose (fst e) (fst (snd x)) (1 / 10 ^ 4) \<and> snd e = fst (snd (snd x)))"
proof (induction rs arbitrary: pool)
  case Nil
  then show ?case by simp
next
  case (Cons r rs)
  obtain neigh d idx coord where r: "r = (neigh, d, idx, coord)"
    by (cases r) auto
  show ?case
  proof (cases "find_match d idx pool")
    case None
    with r Cons.prems Cons.IH [of pool] show ?thesis by auto
  next
    case (Some i)
    then have i: "i < length pool" "isclose (fst (pool ! i)) d (1 / 10 ^ 4)" "snd (pool ! i) = idx"
      by (simp_all add: find_match_Some)
    from Cons.prems r Some have "x = r \<or> x \<in> set (bound_results (delete_at i pool) rs)"
      by auto
    then show ?thesis
    proof
      assume "x = r"
      with r i show ?thesis by (auto intro!: bexI [of _ "pool ! i"])
    next
      assume "x \<in> set (bound_results (delete_at i pool) rs)"
      from Cons.IH [OF this] set_delete_at [of i pool] show ?thesis by auto
    qed
  qed
qed

lemma get_atomnumber_Na1: "get_atomnumber ''Na1'' = Inr 0"
  by (simp add: get_atomnumber_def split_string_def rstrip_digits_def is_digit_def py_int_def
      digit_value_def)

lemma get_atomnumber_Cl2: "get_atomnumber ''Cl2'' = Inr 1"
  by (simp add: get_atomnumber_def split_string_def rstrip_digits_def is_digit_def py_int_def
      digit_value_def)

lemma ex_relevant_atoms_0:
  "relevant_atoms None 0 0 (get_icohp_dict_of_site (ex_collection 3) 0 6 lo up None) = Inr [(''1'', 3, 1, - 1)]"
  by (simp add: ex_collection_def ex_icohp_def relevant_atom_def get_atomnumber_Na1 get_atomnumber_Cl2
      bond_valences_def needs_valences_def condition_holds_def)

lemma ex_find_environment_near:
  "find_environment (ex_structure (300015 / 100000)) (ex_collection 3) None 0 lo up None 0 ex_Na
     = Inr \<lparr>env_icohps = [- 1], env_keys = [''1''], env_lengths = [3], env_neighisite = [1],
            env_neighsite = [ex_Cl], env_coords = [(2, 2, 2)]\<rparr>"
  by (simp add: find_environment_def find_relevant_atoms_additional_condition_def ex_relevant_atoms_0
      neighbors_by_distance_def sorted_by_distance_def ex_structure_def prepare_def
      find_match_def matches_def isclose_def atol_default_def delete_at_def ex_Na_def ex_Cl_def)

lemma ex_find_environment_far:
  "find_environment (ex_structure (301 / 100)) (ex_collection 3) None 0 lo up None 0 ex_Na
     = Inr \<lparr>env_icohps = [- 1], env_keys = [''1''], env_lengths = [3], env_neighisite = [],
            env_neighsite = [], env_coords = []\<rparr>"
  by (simp add: find_environment_def find_relevant_atoms_additional_condition_def ex_relevant_atoms_0
      neighbors_by_distance_def sorted_by_distance_def ex_structure_def prepare_def
      find_match_def matches_def isclose_def atol_default_def delete_at_def ex_Na_def ex_Cl_def)

lemma max_list_Max:
  assumes "xs \<noteq> []"
  shows "max_list xs = Inr (Max (set xs))"
proof (cases xs)
  case Nil
  with assms show ?thesis by simp
next
  case (Cons x ys)
  have "Max (set (x # ys)) = fold max ys x"
    by (rule Max.set_eq_fold)
  with Cons show ?thesis by simp
qed

lemma zip_candidate_lists:
  "zip (map (fst \<circ> snd) cs) (map (fst \<circ> snd \<circ> snd) cs) = candidate_pool cs"
  by (induction cs) (simp_all add: candidate_pool_def)

lemma resolved_triples:
  "zip (map fst xs) (zip (map (fst \<circ> snd) xs) (map (snd \<circ> snd) xs)) = xs"
  by (induction xs) auto

lemma find_environment_nonempty:
  assumes "relevant_atoms vals isite cond (get_icohp_dict_of_site coll isite 6 lo up bonds) = Inr cs"
    and "cs \<noteq> []"
  shows "\<exists>env. find_environment S coll vals cond lo up bonds isite site = Inr env
           \<and> resolved env = match_neighbors (candidate_pool cs) (search_results S site cs)
           \<and> env_neighsite env = map fst (resolved env)
           \<and> env_neighisite env = map (fst \<circ> snd) (resolved env)
           \<and> env_coords env = map (snd \<circ> snd) (resolved env)
           \<and> env_keys env = map fst cs
           \<and> env_lengths env = map (fst \<circ> snd) cs
           \<and> env_icohps env = map (snd \<circ> snd \<circ> snd) cs"
proof -
  have m: "max_list (map (fst \<circ> snd) cs) = Inr (Max (set (map fst (candidate_pool cs))))"
    using assms(2) by (simp add: max_list_Max candidate_pool_def comp_def)
  note search_radius_def [simp]
  show ?thesis
    using assms
    by (simp add: find_environment_def find_relevant_atoms_additional_condition_def m
        zip_candidate_lists resolved_def resolved_triples search_results_def Let_def)
qed

lemma find_environment_empty:
  assumes "relevant_atoms vals isite cond (get_icohp_dict_of_site coll isite 6 lo up bonds) = Inr []"
  shows "find_environment S coll vals cond lo up bonds isite site =
           Inr \<lparr>env_icohps = [], env_keys = [], env_lengths = [], env_neighisite = [],
                env_neighsite = [], env_coords = []\<rparr>"
  using assms
  by (simp add: find_environment_def find_relevant_atoms_additional_condition_def)

lemma match_step_none:
  assumes "\<forall>e\<in>set pool. \<not> (snd e = index_here \<and> isclose (fst e) d (1 / 10 ^ 4))"
  shows "match_neighbors pool ((neigh, d, index_here, coord) # rest) = match_neighbors pool rest
       \<and> remaining_pool pool ((neigh, d, index_here, coord) # rest) = remaining_pool pool rest"
proof -
  from assms have "find_match d index_here pool = None"
    by (auto simp: find_match_None)
  then show ?thesis by simp
qed

lemma match_step_some:
  assumes "i < length pool" and "snd (pool ! i) = index_here"
    and "isclose (fst (pool ! i)) d (1 / 10 ^ 4)"
    and "\<forall>j<i. \<not> (snd (pool ! j) = index_here \<and> isclose (fst (pool ! j)) d (1 / 10 ^ 4))"
  shows "match_neighbors pool ((neigh, d, index_here, coord) # rest) =
           (neigh, index_here, coord) # match_neighbors (take i pool @ drop (Suc i) pool) rest
       \<and> remaining_pool pool ((neigh, d, index_here, coord) # rest) =
           remaining_pool (take i pool @ drop (Suc i) pool) rest"
proof -
  from assms have "find_match d index_here pool = Some i"
    by (auto simp: find_match_Some)
  then show ?thesis by (simp add: delete_at_def)
qed

lemma sorted_search_results:
  "sorted (map (\<lambda>p. fst (snd p)) (search_results S site cs))"
  by (simp add: search_results_def sorted_neighbors_by_distance)

lemma ex_search_results:
  "0 < d \<Longrightarrow> search_results (ex_structure d) ex_Na [(''1'', 3, 1, - 1)] =
     (if d \<le> 7 / 2 then [(ex_Na, 0, 0, (0, 0, 0)), (ex_Cl, d, 1, (2, 2, 2))]
      else [(ex_Na, 0, 0, (0, 0, 0))])"
  by (simp add: search_results_def search_radius_def candidate_pool_def neighbors_by_distance_def
      sorted_by_distance_def ex_structure_def prepare_def ex_Na_def ex_Cl_def)


section \<open>The neighbor resolver binds the first matching candidate (C1)\<close>

text \<open>
  Claim C1. For a site whose filtered candidate list \<open>cs\<close> is not empty,
  \<^verbatim>\<open>_find_environments\<close> returns without error, and the three lists it builds are what
  the matching loop yields on the pool of candidates and the search results around the site
  (radius: largest bond length plus 0.5), which are walked in ascending order of distance.
  One step of the walk, for a result \<open>(neigh, d, index_here, coord)\<close>: if no pool entry has
  the neighbor atom index \<open>index_here\<close> and a bond length \<open>l\<close> with
  \<open>|l - d| \<le> 1e-8 + 1e-4 * |d|\<close> (\<^verbatim>\<open>np.isclose\<close> with \<^verbatim>\<open>rtol=1e-4\<close> and its default
  absolute term), the result is discarded and the pool unchanged; otherwise the first such
  entry, at position \<open>i\<close>, is bound to the result and deleted from the pool. A candidate of
  length 3.00 is bound to an image at distance 3.00015, and not to one at 3.01: there nothing
  is bound, the candidate stays in the pool, and no error is raised.
\<close>

theorem resolver_binds_first_match:
  "(relevant_atoms vals isite cond (get_icohp_dict_of_site coll isite 6 lo up bonds) = Inr cs
      \<and> cs \<noteq> [] \<longrightarrow>
      (\<exists>env. find_environment S coll vals cond lo up bonds isite site = Inr env
         \<and> resolved env = match_neighbors (candidate_pool cs) (search_results S site cs)
         \<and> env_neighsite env = map fst (resolved env)
         \<and> env_neighisite env = map (fst \<circ> snd) (resolved env)
         \<and> env_coords env = map (snd \<circ> snd) (resolved env)))
   \<and> sorted (map (\<lambda>p. fst (snd p)) (search_results S site cs))
   \<and> ((\<forall>e\<in>set pool. \<not> (snd e = index_here \<and> isclose (fst e) d (1 / 10 ^ 4))) \<longrightarrow>
        match_neighbors pool ((neigh, d, index_here, coord) # rest) = match_neighbors pool rest
        \<and> remaining_pool pool ((neigh, d, index_here, coord) # rest) = remaining_pool pool rest)
   \<and> (i < length pool \<and> snd (pool ! i) = index_here \<and> isclose (fst (pool ! i)) d (1 / 10 ^ 4)
        \<and> (\<forall>j<i. \<not> (snd (pool ! j) = index_here \<and> isclose (fst (pool ! j)) d (1 / 10 ^ 4)))
      \<longrightarrow>
        match_neighbors pool ((neigh, d, index_here, coord) # rest) =
          (neigh, index_here, coord) # match_neighbors (take i pool @ drop (Suc i) pool) rest
        \<and> remaining_pool pool ((neigh, d, index_here, coord) # rest) =
            remaining_pool (take i pool @ drop (Suc i) pool) rest)
   \<and> match_neighbors [(3, k)] [(neigh, 300015 / 100000, k, coord)] = [(neigh, k, coord)]
   \<and> match_neighbors [(3, k)] [(neigh, 301 / 100, k, coord)] = []
   \<and> remaining_pool [(3, k)] [(neigh, 301 / 100, k, coord)] = [(3, k)]"
proof (intro conjI impI)
  assume "relevant_atoms vals isite cond (get_icohp_dict_of_site coll isite 6 lo up bonds) = Inr cs
      \<and> cs \<noteq> []"
  then show "\<exists>env. find_environment S coll vals cond lo up bonds isite site = Inr env
         \<and> resolved env = match_neighbors (candidate_pool cs) (search_results S site cs)
         \<and> env_neighsite env = map fst (resolved env)
         \<and> env_neighisite env = map (fst \<circ> snd) (resolved env)
         \<and> env_coords env = map (snd \<circ> snd) (resolved env)"
    using find_environment_nonempty [of vals isite cond coll lo up bonds cs S site] by blast
next
  show "sorted (map (\<lambda>p. fst (snd p)) (search_results S site cs))"
    by (rule sorted_search_results)
next
  assume "\<forall>e\<in>set pool. \<not> (snd e = index_here \<and> isclose (fst e) d (1 / 10 ^ 4))"
  then show "match_neighbors pool ((neigh, d, index_here, coord) # rest) = match_neighbors pool rest"
    and "remaining_pool pool ((neigh, d, index_here, coord) # rest) = remaining_pool pool rest"
    using match_step_none by blast+
next
  assume a: "i < length pool \<and> snd (pool ! i) = index_here \<and> isclose (fst (pool ! i)) d (1 / 10 ^ 4)
        \<and> (\<forall>j<i. \<not> (snd (pool ! j) = index_here \<and> isclose (fst (pool ! j)) d (1 / 10 ^ 4)))"
  then show "match_neighbors pool ((neigh, d, index_here, coord) # rest) =
          (neigh, index_here, coord) # match_neighbors (take i pool @ drop (Suc i) pool) rest"
    and "remaining_pool pool ((neigh, d, index_here, coord) # rest) =
            remaining_pool (take i pool @ drop (Suc i) pool) rest"
    using match_step_some [of i pool index_here d neigh coord rest] by blast+
next
  show "match_neighbors [(3, k)] [(neigh, 300015 / 100000, k, coord)] = [(neigh, k, coord)]"
    by (simp add: find_match_def matches_def isclose_def atol_default_def delete_at_def)
next
  show "match_neighbors [(3, k)] [(neigh, 301 / 100, k, coord)] = []"
    by (simp add: find_match_def matches_def isclose_def atol_default_def)
next
  show "remaining_pool [(3, k)] [(neigh, 301 / 100, k, coord)] = [(3, k)]"
    by (simp add: find_match_def matches_def isclose_def atol_default_def)
qed

theorem resolver_binds_first_match_witness:
  "relevant_atoms None 0 0 (get_icohp_dict_of_site (ex_collection 3) 0 6 None None None)
     = Inr [(''1'', 3, 1, - 1)]
   \<and> (\<exists>env. find_environment (ex_structure (300015 / 100000)) (ex_collection 3) None 0 None None
               None 0 ex_Na = Inr env
          \<and> resolved env = [(ex_Cl, 1, (2, 2, 2))]
          \<and> env_neighisite env = [1])
   \<and> sorted (map (\<lambda>p. fst (snd p))
        (search_results (ex_structure (300015 / 100000)) ex_Na [(''1'', 3, 1, - 1)]))
   \<and> match_neighbors [(3, 1)] [(ex_Na, 0, 0, (0, 0, 0)), (ex_Cl, 300015 / 100000, 1, (2, 2, 2))]
       = [(ex_Cl, 1, (2, 2, 2))]"
proof -
  have h: "relevant_atoms None 0 0 (get_icohp_dict_of_site (ex_collection 3) 0 6 None None None)
     = Inr [(''1'', 3, 1, - 1)]"
    by (rule ex_relevant_atoms_0)
  have none: "\<forall>e\<in>set [(3::real, 1::int)]. \<not> (snd e = 0 \<and> isclose (fst e) 0 (1 / 10 ^ 4))"
    by simp
  have some: "(0::nat) < length [(3::real, 1::int)] \<and> snd ([(3::real, 1::int)] ! 0) = 1
      \<and> isclose (fst ([(3::real, 1::int)] ! 0)) (300015 / 100000) (1 / 10 ^ 4)
      \<and> (\<forall>j<0::nat. \<not> (snd ([(3::real, 1::int)] ! j) = 1
             \<and> isclose (fst ([(3::real, 1::int)] ! j)) (300015 / 100000) (1 / 10 ^ 4)))"
    by (simp add: isclose_def atol_default_def)
  note t1 = resolver_binds_first_match [where vals = None and isite = 0 and cond = 0
      and coll = "ex_collection 3" and lo = None and up = None and bonds = None
      and cs = "[(''1'', 3, 1, - 1)]" and S = "ex_structure (300015 / 100000)" and site = ex_Na
      and pool = "[(3, 1)]" and index_here = 0 and d = 0 and neigh = ex_Na
      and coord = "(0, 0, 0)" and rest = "[(ex_Cl, 300015 / 100000, 1, (2, 2, 2))]"]
  note t2 = resolver_binds_first_match [where pool = "[(3, 1)]" and index_here = 1
      and d = "300015 / 100000" and neigh = ex_Cl and coord = "(2, 2, 2)" and rest = "[]"
      and i = 0]
  have found: "match_neighbors (candidate_pool [(''1'', 3, 1, - 1)])
      (search_results (ex_structure (300015 / 100000)) ex_Na [(''1'', 3, 1, - 1)])
      = [(ex_Cl, 1, (2, 2, 2))]"
    by (simp add: ex_search_results candidate_pool_def find_match_def matches_def isclose_def
        atol_default_def delete_at_def)
  from t1 h obtain env where "find_environment (ex_structure (300015 / 100000)) (ex_collection 3)
               None 0 None None None 0 ex_Na = Inr env"
    and "resolved env = match_neighbors (candidate_pool [(''1'', 3, 1, - 1)])
      (search_results (ex_structure (300015 / 100000)) ex_Na [(''1'', 3, 1, - 1)])"
    and "env_neighisite env = map (fst \<circ> snd) (resolved env)"
    by blast
  with found have env: "\<exists>env. find_environment (ex_structure (300015 / 100000)) (ex_collection 3)
               None 0 None None None 0 ex_Na = Inr env
          \<and> resolved env = [(ex_Cl, 1, (2, 2, 2))] \<and> env_neighisite env = [1]"
    by simp
  from t1 have srt: "sorted (map (\<lambda>p. fst (snd p))
        (search_results (ex_structure (300015 / 100000)) ex_Na [(''1'', 3, 1, - 1)]))"
    by blast
  from t1 none have s1: "match_neighbors [(3, 1)]
        [(ex_Na, 0, 0, (0, 0, 0)), (ex_Cl, 300015 / 100000, 1, (2, 2, 2))]
      = match_neighbors [(3, 1)] [(ex_Cl, 300015 / 100000, 1, (2, 2, 2))]"
    by blast
  from t2 some have s2: "match_neighbors [(3, 1)] [(ex_Cl, 300015 / 100000, 1, (2, 2, 2))]
      = [(ex_Cl, 1, (2, 2, 2))]"
    by simp
  from h env srt s1 s2 show ?thesis by simp
qed


section \<open>The length of the resolved neighbor set (C2)\<close>

lemma remaining_pool_Nil: "remaining_pool [] rs = []"
  using resolved_plus_remaining [of "[]" rs] by simp

lemma prepare_fields:
  "fst (prepare S x) = fst x" "fst (snd (snd (prepare S x))) = fst (snd (snd x))"
  by (auto simp: prepare_def split: prod.splits)

lemma search_results_from_sphere:
  assumes "b \<in> set (search_results S site cs)"
  shows "\<exists>x\<in>set (get_sites_in_sphere S (coords site) (search_radius cs)).
           fst b = fst x \<and> fst (snd b) = fst (snd x) \<and> fst (snd (snd b)) = fst (snd (snd x))"
proof -
  from assms obtain x where "x \<in> set (get_sites_in_sphere S (coords site) (search_radius cs))"
    and "b = prepare S x"
    by (auto simp: search_results_def neighbors_by_distance_def sorted_by_distance_def)
  then show ?thesis
    by (auto simp: prepare_fields prepare_distance)
qed

lemma resolved_entry_sound:
  assumes "k < length (match_neighbors (candidate_pool cs) (search_results S site cs))"
  shows "\<exists>x\<in>set (get_sites_in_sphere S (coords site) (search_radius cs)).
           fst (match_neighbors (candidate_pool cs) (search_results S site cs) ! k) = fst x
         \<and> fst (snd (match_neighbors (candidate_pool cs) (search_results S site cs) ! k))
             = fst (snd (snd x))"
proof -
  let ?bs = "bound_results (candidate_pool cs) (search_results S site cs)"
  let ?ms = "match_neighbors (candidate_pool cs) (search_results S site cs)"
  have ms: "?ms = map (\<lambda>(neigh, d, idx, coord). (neigh, idx, coord)) ?bs"
    by (rule match_neighbors_bound)
  with assms have k: "k < length ?bs" by simp
  obtain neigh d idx coord where b: "?bs ! k = (neigh, d, idx, coord)"
    by (cases "?bs ! k") auto
  from k ms b have mk: "?ms ! k = (neigh, idx, coord)" by simp
  from k have "?bs ! k \<in> set ?bs" by simp
  from bound_results_sound [OF this] b
  have inrs: "(neigh, d, idx, coord) \<in> set (search_results S site cs)"
    by auto
  from search_results_from_sphere [OF inrs]
  obtain x where x: "x \<in> set (get_sites_in_sphere S (coords site) (search_radius cs))"
    "neigh = fst x" "idx = fst (snd (snd x))"
    by auto
  from x mk show ?thesis
    by (intro bexI [of _ x]) auto
qed

lemma relevant_atoms_of_find_environment:
  assumes "find_environment S coll vals cond lo up bonds isite site = Inr env"
  shows "\<exists>cs. relevant_atoms vals isite cond (get_icohp_dict_of_site coll isite 6 lo up bonds) = Inr cs"
  using assms
  by (cases "relevant_atoms vals isite cond (get_icohp_dict_of_site coll isite 6 lo up bonds)")
     (simp_all add: find_environment_def find_relevant_atoms_additional_condition_def)

text \<open>
  Claim C2, as stated, fails: the resolved lists of a site can be shorter than the list of
  its selected bond records. In the two-atom example the record has the bond length 3.00
  and the neighbor search finds the other atom at 3.01; the record is selected, nothing is
  resolved, and no error is raised.
\<close>

theorem neighbor_set_length_counterexample:
  "find_environment (ex_structure (301 / 100)) (ex_collection 3) None 0 None None None 0 ex_Na
     = Inr \<lparr>env_icohps = [- 1], env_keys = [''1''], env_lengths = [3], env_neighisite = [],
            env_neighsite = [], env_coords = []\<rparr>
   \<and> length (env_neighsite \<lparr>env_icohps = [- 1], env_keys = [''1''], env_lengths = [3],
         env_neighisite = [], env_neighsite = [], env_coords = []\<rparr>)
      \<noteq> length (env_keys \<lparr>env_icohps = [- 1], env_keys = [''1''], env_lengths = [3],
         env_neighisite = [], env_neighsite = [], env_coords = []\<rparr>)"
  by (simp add: ex_find_environment_far)

text \<open>
  Claim C2, amended. Whenever \<^verbatim>\<open>_find_environments\<close> returns for a site, its lists of
  keys, lengths and strengths have one entry per selected bond record; its lists of
  neighbor sites, neighbor indices and coordinates have one common length, which is the
  number of selected records minus the number of candidates left unmatched in the pool, so
  it is at most the number of selected records and equal to it exactly when every
  candidate is matched. The neighbor site of each resolved entry is a site the neighbor
  search returned within the search radius, and the neighbor index of the entry is the
  unit-cell index of that site.
\<close>

theorem neighbor_set_length_amended:
  assumes "find_environment S coll vals cond lo up bonds isite site = Inr env"
  shows "\<exists>cs. relevant_atoms vals isite cond (get_icohp_dict_of_site coll isite 6 lo up bonds) = Inr cs
     \<and> env_keys env = map fst cs
     \<and> length (env_lengths env) = length cs \<and> length (env_icohps env) = length cs
     \<and> length (env_neighisite env) = length (env_neighsite env)
     \<and> length (env_coords env) = length (env_neighsite env)
     \<and> length (env_neighsite env)
         + length (remaining_pool (candidate_pool cs) (search_results S site cs)) = length cs
     \<and> length (env_neighsite env) \<le> length cs
     \<and> (\<forall>k<length (env_neighsite env).
          \<exists>x\<in>set (get_sites_in_sphere S (coords site) (search_radius cs)).
             env_neighsite env ! k = fst x
           \<and> env_neighisite env ! k = fst (snd (snd x)))"
proof -
  from relevant_atoms_of_find_environment [OF assms]
  obtain cs where cs: "relevant_atoms vals isite cond
      (get_icohp_dict_of_site coll isite 6 lo up bonds) = Inr cs" ..
  show ?thesis
  proof (cases "cs = []")
    case True
    with cs assms have "env = \<lparr>env_icohps = [], env_keys = [], env_lengths = [],
        env_neighisite = [], env_neighsite = [], env_coords = []\<rparr>"
      by (simp add: find_environment_empty)
    with cs True show ?thesis
      by (simp add: candidate_pool_def remaining_pool_Nil)
  next
    case False
    let ?ms = "match_neighbors (candidate_pool cs) (search_results S site cs)"
    from find_environment_nonempty [OF cs False, of S site] assms
    have r: "resolved env = ?ms" and ns: "env_neighsite env = map fst ?ms"
      and ni: "env_neighisite env = map (fst \<circ> snd) ?ms"
      and co: "env_coords env = map (snd \<circ> snd) ?ms"
      and ks: "env_keys env = map fst cs" and ls: "env_lengths env = map (fst \<circ> snd) cs"
      and ic: "env_icohps env = map (snd \<circ> snd \<circ> snd) cs"
      by auto
    have sum: "length ?ms + length (remaining_pool (candidate_pool cs) (search_results S site cs))
        = length cs"
      using resolved_plus_remaining [of "candidate_pool cs" "search_results S site cs"]
      by (simp add: candidate_pool_def)
    have entries: "\<forall>k<length ?ms.
          \<exists>x\<in>set (get_sites_in_sphere S (coords site) (search_radius cs)).
             fst (?ms ! k) = fst x \<and> fst (snd (?ms ! k)) = fst (snd (snd x))"
      using resolved_entry_sound [of _ cs S site] by blast
    have "length (env_neighsite env) \<le> length cs"
      using sum ns by simp
    with cs ks ls ic ns ni co sum entries show ?thesis
      by (intro exI [of _ cs]) simp
  qed
qed

theorem neighbor_set_length_amended_witness:
  "find_environment (ex_structure (300015 / 100000)) (ex_collection 3) None 0 None None None 0 ex_Na
     = Inr \<lparr>env_icohps = [- 1], env_keys = [''1''], env_lengths = [3], env_neighisite = [1],
            env_neighsite = [ex_Cl], env_coords = [(2, 2, 2)]\<rparr>
   \<and> (\<exists>cs. relevant_atoms None 0 0 (get_icohp_dict_of_site (ex_collection 3) 0 6 None None None)
             = Inr cs
        \<and> length [ex_Cl] + length (remaining_pool (candidate_pool cs)
             (search_results (ex_structure (300015 / 100000)) ex_Na cs)) = length cs
        \<and> (\<forall>k<length [ex_Cl].
             \<exists>x\<in>set (get_sites_in_sphere (ex_structure (300015 / 100000)) (coords ex_Na)
                        (search_radius cs)).
                [ex_Cl] ! k = fst x \<and> [1] ! k = fst (snd (snd x))))"
proof -
  have h: "find_environment (ex_structure (300015 / 100000)) (ex_collection 3) None 0 None None
      None 0 ex_Na
     = Inr \<lparr>env_icohps = [- 1], env_keys = [''1''], env_lengths = [3], env_neighisite = [1],
            env_neighsite = [ex_Cl], env_coords = [(2, 2, 2)]\<rparr>"
    by (rule ex_find_environment_near)
  from neighbor_set_length_amended [OF h] h show ?thesis
    by simp blast
qed


section \<open>The threshold window (C3)\<close>

lemma min_list_Min:
  assumes "xs \<noteq> []"
  shows "min_list xs = Inr (Min (set xs))"
proof (cases xs)
  case Nil
  with assms show ?thesis by simp
next
  case (Cons x ys)
  have "Min (set (x # ys)) = fold min ys x"
    by (rule Min.set_eq_fold)
  with Cons show ?thesis by simp
qed

lemma extremum_based_plain:
  "\<not> adapt \<or> cond = 0 \<Longrightarrow>
     extremum_based coops cobis vals coll perc adapt cond
       = Inr (Some (extremum_icohpvalue coll * perc))"
  by (auto simp: extremum_based_def)

lemma extremum_based_adapted:
  assumes "adapt" "1 \<le> cond" "cond \<le> 6"
    and "adapt_subset vals cond (map snd (icohplist coll)) = Inr l" and "l \<noteq> []"
  shows "extremum_based coops cobis vals coll perc adapt cond
       = Inr (Some ((if \<not> coops \<and> \<not> cobis then Min (set l) else Max (set l)) * perc))"
  using assms
  by (auto simp: extremum_based_def adapt_extremum_to_add_cond_def min_list_Min max_list_Max)

lemma extremum_based_empty:
  assumes "adapt" "1 \<le> cond" "cond \<le> 6"
    and "adapt_subset vals cond (map snd (icohplist coll)) = Inr []"
  shows "extremum_based coops cobis vals coll perc adapt cond = Inl EmptySequence"
  using assms
  by (auto simp: extremum_based_def adapt_extremum_to_add_cond_def)

lemma limit_of_extremum:
  assumes "extremum_based coops cobis vals coll perc adapt cond = Inr (Some x)"
  shows "get_limit_from_extremum coops cobis nc vals coll perc adapt cond =
       (if \<not> coops \<and> \<not> cobis
        then Inr (Some NegInf, Some (Fin (case nc of None \<Rightarrow> x | Some c \<Rightarrow> min x (- c))))
        else Inr (Some (Fin (case nc of None \<Rightarrow> x | Some c \<Rightarrow> max x c)), Some PosInf))"
  using assms by (simp add: get_limit_from_extremum_def split: option.splits)

lemma limit_bounds:
  assumes "get_limit_from_extremum coops cobis (Some c) vals coll perc adapt cond = Inr (lo, up)"
  shows "if \<not> coops \<and> \<not> cobis
         then lo = Some NegInf \<and> (\<exists>u. up = Some (Fin u) \<and> u \<le> - c)
         else up = Some PosInf \<and> (\<exists>l. lo = Some (Fin l) \<and> c \<le> l)"
  using assms
  by (auto simp: get_limit_from_extremum_def split: sum.splits option.splits if_splits)

lemma ex_adapt_subset_1:
  "adapt_subset (Some [1, - 1]) 1 (map snd (icohplist (ex_collection 3))) = Inr [- 1]"
  by (simp add: ex_collection_def ex_icohp_def adapt_test_def needs_valences_def
      get_atomnumber_Na1 get_atomnumber_Cl2 bond_valences_def valence_at_def py_index_def
      condition_holds_def anion_cation_def)

text \<open>
  Claim C3. With no limits given, \<^verbatim>\<open>_evaluate_ce\<close> takes its window from
  \<^verbatim>\<open>_get_limit_from_extremum\<close>. Let \<open>x\<close> be the extremum times the percentage: the value
  of the collection's extremum query when the extremum is not adapted (or the condition is
  0), and the minimum (ICOHP) or maximum (ICOOP, ICOBI) of the strengths of the records
  that pass the condition when it is adapted and that subset is not empty. For ICOHPs
  (neither COOP nor COBI) the window is \<open>(-\<infinity>, min x (-noise_cutoff))\<close>, for ICOOPs and
  ICOBIs it is \<open>(max x noise_cutoff, +\<infinity>)\<close>; without a noise cutoff the bound is \<open>x\<close>
  itself. So whenever a noise cutoff \<open>c\<close> is set and a window is returned, its upper bound
  is at most \<open>-c\<close> in the first case and its lower bound at least \<open>c\<close> in the second.
\<close>

theorem threshold_window:
  "evaluation_limits self None None cond perc adapt =
     get_limit_from_extremum (are_coops (args self)) (are_cobis (args self))
       (noise_cutoff (args self)) (valences self) (Icohpcollection self) perc adapt cond
   \<and> (\<not> adapt \<or> cond = 0 \<longrightarrow>
        get_limit_from_extremum coops cobis nc vals coll perc adapt cond =
          (if \<not> coops \<and> \<not> cobis
           then Inr (Some NegInf,
                     Some (Fin (case nc of None \<Rightarrow> extremum_icohpvalue coll * perc
                                | Some c \<Rightarrow> min (extremum_icohpvalue coll * perc) (- c))))
           else Inr (Some (Fin (case nc of None \<Rightarrow> extremum_icohpvalue coll * perc
                                | Some c \<Rightarrow> max (extremum_icohpvalue coll * perc) c)),
                     Some PosInf)))
   \<and> (adapt \<and> 1 \<le> cond \<and> cond \<le> 6
        \<and> adapt_subset vals cond (map snd (icohplist coll)) = Inr l \<and> l \<noteq> [] \<longrightarrow>
        get_limit_from_extremum coops cobis nc vals coll perc adapt cond =
          (if \<not> coops \<and> \<not> cobis
           then Inr (Some NegInf,
                     Some (Fin (case nc of None \<Rightarrow> Min (set l) * perc
                                | Some c \<Rightarrow> min (Min (set l) * perc) (- c))))
           else Inr (Some (Fin (case nc of None \<Rightarrow> Max (set l) * perc
                                | Some c \<Rightarrow> max (Max (set l) * perc) c)),
                     Some PosInf)))
   \<and> (get_limit_from_extremum coops cobis (Some c) vals coll perc adapt cond = Inr (lo, up) \<longrightarrow>
        (if \<not> coops \<and> \<not> cobis
         then lo = Some NegInf \<and> (\<exists>u. up = Some (Fin u) \<and> u \<le> - c)
         else up = Some PosInf \<and> (\<exists>l. lo = Some (Fin l) \<and> c \<le> l)))"
proof (intro conjI impI)
  show "evaluation_limits self None None cond perc adapt =
     get_limit_from_extremum (are_coops (args self)) (are_cobis (args self))
       (noise_cutoff (args self)) (valences self) (Icohpcollection self) perc adapt cond"
    by (simp add: evaluation_limits_def)
next
  assume "\<not> adapt \<or> cond = 0"
  from limit_of_extremum [OF extremum_based_plain [OF this]]
  show "get_limit_from_extremum coops cobis nc vals coll perc adapt cond =
          (if \<not> coops \<and> \<not> cobis
           then Inr (Some NegInf,
                     Some (Fin (case nc of None \<Rightarrow> extremum_icohpvalue coll * perc
                                | Some c \<Rightarrow> min (extremum_icohpvalue coll * perc) (- c))))
           else Inr (Some (Fin (case nc of None \<Rightarrow> extremum_icohpvalue coll * perc
                                | Some c \<Rightarrow> max (extremum_icohpvalue coll * perc) c)),
                     Some PosInf))" .
next
  assume a: "adapt \<and> 1 \<le> cond \<and> cond \<le> 6
        \<and> adapt_subset vals cond (map snd (icohplist coll)) = Inr l \<and> l \<noteq> []"
  then have "extremum_based coops cobis vals coll perc adapt cond
       = Inr (Some ((if \<not> coops \<and> \<not> cobis then Min (set l) else Max (set l)) * perc))"
    using extremum_based_adapted [of adapt cond vals coll l coops cobis perc] by blast
  from limit_of_extremum [OF this, of nc]
  show "get_limit_from_extremum coops cobis nc vals coll perc adapt cond =
          (if \<not> coops \<and> \<not> cobis
           then Inr (Some NegInf,
                     Some (Fin (case nc of None \<Rightarrow> Min (set l) * perc
                                | Some c \<Rightarrow> min (Min (set l) * perc) (- c))))
           else Inr (Some (Fin (case nc of None \<Rightarrow> Max (set l) * perc
                                | Some c \<Rightarrow> max (Max (set l) * perc) c)),
                     Some PosInf))"
    by (simp split: if_splits)
next
  assume "get_limit_from_extremum coops cobis (Some c) vals coll perc adapt cond = Inr (lo, up)"
  then show "if \<not> coops \<and> \<not> cobis
         then lo = Some NegInf \<and> (\<exists>u. up = Some (Fin u) \<and> u \<le> - c)
         else up = Some PosInf \<and> (\<exists>l. lo = Some (Fin l) \<and> c \<le> l)"
    by (rule limit_bounds)
qed

theorem threshold_window_witness:
  "get_limit_from_extremum False False (Some (1 / 10)) (Some [1, - 1]) (ex_collection 3)
       (15 / 100) False 0 = Inr (Some NegInf, Some (Fin (- (15 / 100))))
   \<and> get_limit_from_extremum True False (Some (1 / 10)) (Some [1, - 1]) (ex_collection 3)
       (15 / 100) False 0 = Inr (Some (Fin (1 / 10)), Some PosInf)
   \<and> adapt_subset (Some [1, - 1]) 1 (map snd (icohplist (ex_collection 3))) = Inr [- 1]
   \<and> get_limit_from_extremum False False None (Some [1, - 1]) (ex_collection 3) 1 True 1
       = Inr (Some NegInf, Some (Fin (- 1)))
   \<and> - (15 / 100) \<le> - (1 / 10 :: real)"
proof -
  note t1 = threshold_window [where adapt = False and cond = 0 and coops = False
      and cobis = False and nc = "Some (1 / 10)" and vals = "Some [1, - 1]"
      and coll = "ex_collection 3" and perc = "15 / 100" and c = "1 / 10"
      and lo = "Some NegInf" and up = "Some (Fin (- (15 / 100)))"]
  note t2 = threshold_window [where adapt = False and cond = 0 and coops = True
      and cobis = False and nc = "Some (1 / 10)" and vals = "Some [1, - 1]"
      and coll = "ex_collection 3" and perc = "15 / 100"]
  note t3 = threshold_window [where adapt = True and cond = 1 and coops = False
      and cobis = False and nc = None and vals = "Some [1, - 1]"
      and coll = "ex_collection 3" and perc = 1 and l = "[- 1]"]
  have a: "get_limit_from_extremum False False (Some (1 / 10)) (Some [1, - 1]) (ex_collection 3)
       (15 / 100) False 0 = Inr (Some NegInf, Some (Fin (- (15 / 100))))"
    using t1 by (simp add: ex_collection_def)
  with t1 have a': "- (15 / 100) \<le> - (1 / 10 :: real)"
    by simp
  have b: "get_limit_from_extremum True False (Some (1 / 10)) (Some [1, - 1]) (ex_collection 3)
       (15 / 100) False 0 = Inr (Some (Fin (1 / 10)), Some PosInf)"
    using t2 by (simp add: ex_collection_def)
  have c: "get_limit_from_extremum False False None (Some [1, - 1]) (ex_collection 3) 1 True 1
       = Inr (Some NegInf, Some (Fin (- 1)))"
    using t3 ex_adapt_subset_1 by simp
  from a a' b c ex_adapt_subset_1 show ?thesis by simp
qed


section \<open>An empty adaptation subset is an error (C8)\<close>

lemma limit_empty_subset:
  assumes "1 \<le> cond" "cond \<le> 6"
    and "adapt_subset vals cond (map snd (icohplist coll)) = Inr []"
  shows "get_limit_from_extremum coops cobis nc vals coll perc True cond = Inl EmptySequence"
  using extremum_based_empty [of True cond vals coll coops cobis perc] assms
  by (simp add: get_limit_from_extremum_def)

lemma evaluate_ce_empty_subset:
  assumes "1 \<le> cond" "cond \<le> 6"
    and "adapt_subset (valences self) cond (map snd (icohplist (Icohpcollection self))) = Inr []"
  shows "evaluate_ce self None None bonds cond perc True = Inl EmptySequence"
  using limit_empty_subset [OF assms]
  by (simp add: evaluate_ce_def evaluation_limits_def)

text \<open>The constructor up to the evaluation pass.\<close>

lemma init_reaches_evaluation:
  assumes "filename_icohp a = Some coll \<or> (filename_icohp a = None \<and> obj_icohp a = Some coll)"
    and "str_lower (id_blist_sg1 a) \<in> {''icoop'', ''icobi''}"
    and "str_lower (id_blist_sg2 a) \<in> {''icoop'', ''icobi''}"
    and "0 \<le> additional_condition a" "additional_condition a < 7"
    and "init_valences a = Inr vals"
    and "valences_allclose_zero a vals = Inr z"
    and "\<not> (z \<and> additional_condition a \<in> {1, 3, 5, 6})"
  shows "init a =
     evaluate_ce \<lparr>args = a, Icohpcollection = coll, valences = vals,
                  lowerlimit = fst (case limits a of None \<Rightarrow> (None, None) | Some l \<Rightarrow> l),
                  upperlimit = snd (case limits a of None \<Rightarrow> (None, None) | Some l \<Rightarrow> l),
                  list_icohps = [], list_lengths = [], list_keys = [],
                  list_neighsite = [], list_neighisite = [], list_coords = [], sg_list = []\<rparr>
       (fst (case limits a of None \<Rightarrow> (None, None) | Some l \<Rightarrow> l))
       (snd (case limits a of None \<Rightarrow> (None, None) | Some l \<Rightarrow> l))
       (only_bonds_to a) (additional_condition a) (perc_strength_icohp a) (adapt_extremum a)"
proof -
  from assms(1) have src: "(case filename_icohp a of Some c \<Rightarrow> Inr c
       | None \<Rightarrow> (case obj_icohp a of Some c \<Rightarrow> Inr c | None \<Rightarrow> Inl NoIcohpGiven)) = Inr coll"
    by auto
  from assms(2,3) have ids: "\<not> (str_lower (id_blist_sg1 a) \<notin> {''icoop'', ''icobi''}
            \<or> str_lower (id_blist_sg2 a) \<notin> {''icoop'', ''icobi''})"
    by blast
  from assms(8) have nz: "\<not> (z \<and> additional_condition a \<in> {1, 3, 5, 6})" .
  show ?thesis
    unfolding init_def src
    using ids assms(4,5,6,7) nz
    by (simp add: Let_def del: insert_iff) blast
qed

lemma ex_adapt_subset_6:
  "adapt_subset (Some [1, - 1]) 6 (map snd (icohplist (ex_collection 3))) = Inr []"
  by (simp add: ex_collection_def ex_icohp_def adapt_test_def needs_valences_def
      get_atomnumber_Na1 get_atomnumber_Cl2 bond_valences_def valence_at_def py_index_def
      condition_holds_def)

lemma ex_ids: "str_lower ''ICOOP'' \<in> {''icoop'', ''icobi''}" "str_lower ''ICOBI'' \<in> {''icoop'', ''icobi''}"
  by (simp_all add: str_lower_def lower_char_def)

text \<open>
  Claim C8. When the extremum is to be adapted to a condition policy (a code from 1 to 6;
  for code 0 the source takes the extremum of the whole collection instead) and the loop
  over the records selects none, \<^verbatim>\<open>min\<close> or \<^verbatim>\<open>max\<close> of the empty list raises its
  ValueError, the EmptySelection of the specification, here \<open>EmptySequence\<close>.
  \<^verbatim>\<open>_get_limit_from_extremum\<close> returns no window, and neither \<^verbatim>\<open>_evaluate_ce\<close> (called
  without limits) nor the constructor catches the error: both end with it.
\<close>

theorem empty_adaptation_subset_fails:
  "1 \<le> cond \<and> cond \<le> 6 \<and> adapt_subset vals cond (map snd (icohplist coll)) = Inr [] \<longrightarrow>
     get_limit_from_extremum coops cobis nc vals coll perc True cond = Inl EmptySequence
   \<and> (valences self = vals \<and> Icohpcollection self = coll \<longrightarrow>
        evaluate_ce self None None bonds cond perc True = Inl EmptySequence)
   \<and> ((filename_icohp a = Some coll \<or> (filename_icohp a = None \<and> obj_icohp a = Some coll))
        \<and> str_lower (id_blist_sg1 a) \<in> {''icoop'', ''icobi''}
        \<and> str_lower (id_blist_sg2 a) \<in> {''icoop'', ''icobi''}
        \<and> init_valences a = Inr vals \<and> valences_allclose_zero a vals = Inr False
        \<and> limits a = None \<and> adapt_extremum a \<and> additional_condition a = cond \<longrightarrow>
        init a = Inl EmptySequence)"
proof (intro impI conjI)
  assume h: "1 \<le> cond \<and> cond \<le> 6 \<and> adapt_subset vals cond (map snd (icohplist coll)) = Inr []"
  then show "get_limit_from_extremum coops cobis nc vals coll perc True cond = Inl EmptySequence"
    using limit_empty_subset by blast
  {
    assume "valences self = vals \<and> Icohpcollection self = coll"
    with h show "evaluate_ce self None None bonds cond perc True = Inl EmptySequence"
      using evaluate_ce_empty_subset [of cond self bonds perc] by blast
  }
  {
    assume i: "(filename_icohp a = Some coll \<or> (filename_icohp a = None \<and> obj_icohp a = Some coll))
        \<and> str_lower (id_blist_sg1 a) \<in> {''icoop'', ''icobi''}
        \<and> str_lower (id_blist_sg2 a) \<in> {''icoop'', ''icobi''}
        \<and> init_valences a = Inr vals \<and> valences_allclose_zero a vals = Inr False
        \<and> limits a = None \<and> adapt_extremum a \<and> additional_condition a = cond"
    with h have c: "0 \<le> additional_condition a" "additional_condition a < 7" by auto
    from i h have "init a = evaluate_ce \<lparr>args = a, Icohpcollection = coll, valences = vals,
                  lowerlimit = None, upperlimit = None,
                  list_icohps = [], list_lengths = [], list_keys = [],
                  list_neighsite = [], list_neighisite = [], list_coords = [], sg_list = []\<rparr>
          None None (only_bonds_to a) cond (perc_strength_icohp a) True"
      using init_reaches_evaluation [of a coll vals False, OF _ _ _ c] by simp
    also from h have "\<dots> = Inl EmptySequence"
      by (intro evaluate_ce_empty_subset) simp_all
    finally show "init a = Inl EmptySequence" .
  }
qed

theorem empty_adaptation_subset_fails_witness:
  "adapt_subset (Some [1, - 1]) 6 (map snd (icohplist (ex_collection 3))) = Inr []
   \<and> get_limit_from_extremum False False (Some (1 / 10)) (Some [1, - 1]) (ex_collection 3)
        (15 / 100) True 6 = Inl EmptySequence
   \<and> init ((ex_args 3 3)\<lparr>additional_condition := 6, adapt_extremum := True\<rparr>) = Inl EmptySequence"
proof -
  let ?a = "(ex_args 3 3)\<lparr>additional_condition := 6, adapt_extremum := True\<rparr>"
  note t = empty_adaptation_subset_fails [where cond = 6 and vals = "Some [1, - 1]"
      and coll = "ex_collection 3" and coops = False and cobis = False and nc = "Some (1 / 10)"
      and perc = "15 / 100" and a = ?a]
  have v: "init_valences ?a = Inr (Some [1, - 1])"
    by (simp add: init_valences_def ex_args_def)
  have z: "valences_allclose_zero ?a (Some [1, - 1]) = Inr False"
    by (simp add: valences_allclose_zero_def isclose_def atol_default_def rtol_default_def)
  have c: "(filename_icohp ?a = Some (ex_collection 3)
       \<or> (filename_icohp ?a = None \<and> obj_icohp ?a = Some (ex_collection 3)))
      \<and> str_lower (id_blist_sg1 ?a) \<in> {''icoop'', ''icobi''}
      \<and> str_lower (id_blist_sg2 ?a) \<in> {''icoop'', ''icobi''}
      \<and> limits ?a = None \<and> adapt_extremum ?a \<and> additional_condition ?a = 6"
    using ex_ids by (simp add: ex_args_def)
  from t ex_adapt_subset_6 v z c show ?thesis by simp
qed


section \<open>All valences zero under a sign-discriminating policy (C6)\<close>

lemma zero_valences_allclose:
  assumes "\<forall>v\<in>set vs. v = 0"
  shows "valences_allclose_zero a (Some vs) = Inr True"
  using assms
  by (auto simp: valences_allclose_zero_def list_all_iff isclose_def atol_default_def)

lemma init_all_zero_is_error:
  assumes "additional_condition a \<in> {1, 3, 5, 6}"
    and "init_valences a = Inr (Some vs)" and "\<forall>v\<in>set vs. v = 0"
  shows "init a = (case filename_icohp a of
            Some c \<Rightarrow> (if str_lower (id_blist_sg1 a) \<notin> {''icoop'', ''icobi''}
                          \<or> str_lower (id_blist_sg2 a) \<notin> {''icoop'', ''icobi''}
                        then Inl OnlyIcoopIcobi else Inl AllValencesZero)
          | None \<Rightarrow> (case obj_icohp a of
               Some c \<Rightarrow> (if str_lower (id_blist_sg1 a) \<notin> {''icoop'', ''icobi''}
                          \<or> str_lower (id_blist_sg2 a) \<notin> {''icoop'', ''icobi''}
                        then Inl OnlyIcoopIcobi else Inl AllValencesZero)
             | None \<Rightarrow> Inl NoIcohpGiven))"
proof -
  from assms(1) have r: "0 \<le> additional_condition a \<and> additional_condition a < 7"
    by auto
  show ?thesis
    unfolding init_def
    using assms(1,2) r zero_valences_allclose [OF assms(3), of a]
    by (simp split: option.splits del: insert_iff)
qed

text \<open>
  Claim C6. Let the condition policy be 1, 3, 5 or 6 and let the valences the constructor
  settles on (those supplied, or those derived from charges or by the valence estimator)
  all be zero. Then the constructor never returns an object: it ends with an error before
  \<^verbatim>\<open>_evaluate_ce\<close> is called, and that error is the ValueError "All valences are equal
  to 0" (\<open>AllValencesZero\<close>, a MissingValence of the specification) whenever the two checks
  that precede the valences pass, that is, ICOHP data are given and the two identifiers of
  the additional bonding lists are ICOOP or ICOBI.
\<close>

theorem all_zero_valences_rejected:
  assumes "additional_condition a \<in> {1, 3, 5, 6}"
    and "init_valences a = Inr (Some vs)" and "\<forall>v\<in>set vs. v = 0"
  shows "(\<exists>e. init a = Inl e)
       \<and> ((filename_icohp a \<noteq> None \<or> obj_icohp a \<noteq> None)
            \<and> str_lower (id_blist_sg1 a) \<in> {''icoop'', ''icobi''}
            \<and> str_lower (id_blist_sg2 a) \<in> {''icoop'', ''icobi''}
          \<longrightarrow> init a = Inl AllValencesZero)"
  unfolding init_all_zero_is_error [OF assms]
  by (auto split: option.splits)

theorem all_zero_valences_rejected_witness:
  "additional_condition ((ex_args 3 3)\<lparr>additional_condition := 6, valences_arg := Some [0, 0]\<rparr>)
      \<in> {1, 3, 5, 6}
   \<and> init_valences ((ex_args 3 3)\<lparr>additional_condition := 6, valences_arg := Some [0, 0]\<rparr>)
      = Inr (Some [0, 0])
   \<and> init ((ex_args 3 3)\<lparr>additional_condition := 6, valences_arg := Some [0, 0]\<rparr>)
      = Inl AllValencesZero"
proof -
  let ?a = "(ex_args 3 3)\<lparr>additional_condition := 6, valences_arg := Some [0, 0]\<rparr>"
  have c: "additional_condition ?a \<in> {1, 3, 5, 6}" by simp
  have v: "init_valences ?a = Inr (Some [0, 0])"
    by (simp add: init_valences_def)
  have z: "\<forall>v\<in>set [0, 0 :: real]. v = 0" by simp
  have i: "(filename_icohp ?a \<noteq> None \<or> obj_icohp ?a \<noteq> None)
            \<and> str_lower (id_blist_sg1 ?a) \<in> {''icoop'', ''icobi''}
            \<and> str_lower (id_blist_sg2 ?a) \<in> {''icoop'', ''icobi''}"
    using ex_ids by (simp add: ex_args_def)
  from all_zero_valences_rejected [OF c v z] i c v show ?thesis by blast
qed


section \<open>Policy 5 and a valence of zero (C4)\<close>



section \<open>The image cell and its near-integer check (C5)\<close>




lemma ex_sites: "sites (ex_structure d) = [ex_Na, ex_Cl]"
  by (simp add: ex_structure_def)





section \<open>An aggregate's total is the sum of its list (C7)\<close>

















section \<open>A site of valence zero counts as a cation (C10)\<close>










section \<open>The resolution is deterministic (C9)\<close>


lemma ex_relevant_atoms_1:
  "relevant_atoms vals 1 0 (get_icohp_dict_of_site (ex_collection 3) 1 6 lo up None)
     = Inr [(''1'', 3, 0, - 1)]"
  by (simp add: ex_collection_def ex_icohp_def relevant_atom_def get_atomnumber_Na1
      get_atomnumber_Cl2 bond_valences_def needs_valences_def condition_holds_def)

lemma ex_relevant_atoms_0':
  "relevant_atoms vals 0 0 (get_icohp_dict_of_site (ex_collection 3) 0 6 lo up None)
     = Inr [(''1'', 3, 1, - 1)]"
  by (simp add: ex_collection_def ex_icohp_def relevant_atom_def get_atomnumber_Na1
      get_atomnumber_Cl2 bond_valences_def needs_valences_def condition_holds_def)

lemma ex_find_environments:
  "find_environments (ex_structure 3) (ex_collection 3) vals 0 lo up None =
     Inr [\<lparr>env_icohps = [- 1], env_keys = [''1''], env_lengths = [3], env_neighisite = [1],
           env_neighsite = [ex_Cl], env_coords = [(2, 2, 2)]\<rparr>,
          \<lparr>env_icohps = [- 1], env_keys = [''1''], env_lengths = [3], env_neighisite = [0],
           env_neighsite = [ex_Na], env_coords = [(0, 0, 0)]\<rparr>]"
  by (simp add: find_environments_def ex_sites find_environment_def
      find_relevant_atoms_additional_condition_def ex_relevant_atoms_0' ex_relevant_atoms_1
      neighbors_by_distance_def sorted_by_distance_def ex_structure_def prepare_def
      find_match_def matches_def isclose_def atol_default_def delete_at_def ex_Na_def ex_Cl_def)

lemma ex_sg_lists:
  "sg_lists (ex_args 3 3) [[- 1], [- 1]] [[3], [3]] [[''1''], [''1'']] 0 [[ex_Cl], [ex_Na]]
     = Inr (sg_list ex_result)"
  by (simp add: sg_edge_def next_periodic_image_def ex_args_def ex_structure_def ex_Na_def
      ex_Cl_def py_index_def rounded_difference_def np_round_def ex_result_def Let_def)

lemma ex_evaluate_ce:
  "evaluate_ce ex_start None None None 0 (15 / 100) False = Inr ex_result"
proof -
  have lim: "evaluation_limits ex_start None None 0 (15 / 100) False
      = Inr (Some NegInf, Some (Fin (- (15 / 100))))"
    by (simp add: evaluation_limits_def get_limit_from_extremum_def extremum_based_def
        ex_start_def ex_args_def ex_collection_def)
  have f: "find_environments (the_structure (args ex_start)) (Icohpcollection ex_start)
      (valences ex_start) 0 (Some NegInf) (Some (Fin (- (15 / 100)))) None =
     Inr [\<lparr>env_icohps = [- 1], env_keys = [''1''], env_lengths = [3], env_neighisite = [1],
           env_neighsite = [ex_Cl], env_coords = [(2, 2, 2)]\<rparr>,
          \<lparr>env_icohps = [- 1], env_keys = [''1''], env_lengths = [3], env_neighisite = [0],
           env_neighsite = [ex_Na], env_coords = [(0, 0, 0)]\<rparr>]"
    using ex_find_environments [of "Some [1, - 1]" "Some NegInf" "Some (Fin (- (15 / 100)))"]
    by (simp add: ex_start_def ex_args_def)
  have a: "args ex_start = ex_args 3 3" by (simp add: ex_start_def)
  have sg: "sg_lists (args ex_start) [[- 1], [- 1]] [[3], [3]] [[''1''], [''1'']] 0
      [[ex_Cl], [ex_Na]] = Inr (sg_list ex_result)"
    unfolding a by (rule ex_sg_lists)
  show ?thesis
    using lim f sg
    by (simp add: evaluate_ce_def del: sg_lists.simps) (simp add: ex_result_def ex_start_def)
qed

lemma ex_init: "init (ex_args 3 3) = Inr ex_result"
proof -
  have v: "init_valences (ex_args 3 3) = Inr (Some [1, - 1])"
    by (simp add: init_valences_def ex_args_def)
  have z: "valences_allclose_zero (ex_args 3 3) (Some [1, - 1]) = Inr False"
    by (simp add: valences_allclose_zero_def isclose_def atol_default_def rtol_default_def)
  have a: "filename_icohp (ex_args 3 3) = None \<and> obj_icohp (ex_args 3 3) = Some (ex_collection 3)"
    "str_lower (id_blist_sg1 (ex_args 3 3)) \<in> {''icoop'', ''icobi''}"
    "str_lower (id_blist_sg2 (ex_args 3 3)) \<in> {''icoop'', ''icobi''}"
    "0 \<le> additional_condition (ex_args 3 3)" "additional_condition (ex_args 3 3) < 7"
    using ex_ids by (simp_all add: ex_args_def)
  have l: "limits (ex_args 3 3) = None" "only_bonds_to (ex_args 3 3) = None"
    "additional_condition (ex_args 3 3) = 0" "perc_strength_icohp (ex_args 3 3) = 15 / 100"
    "adapt_extremum (ex_args 3 3) = False"
    by (simp_all add: ex_args_def)
  show ?thesis
    unfolding init_reaches_evaluation [of "ex_args 3 3" "ex_collection 3" "Some [1, - 1]" False,
        OF disjI2 [OF a(1)] a(2) a(3) a(4) a(5) v z, simplified]
    using ex_evaluate_ce by (simp add: l ex_start_def)
qed



end
